theory Spec2Isabelle
  imports Main
begin

section \<open>The frame controller of spaint: \<^verbatim>\<open>SLAMComponent\<close>\<close>

text \<open>
  This theory embeds \<^verbatim>\<open>SLAMComponent::run\<close>, \<^verbatim>\<open>get_fusion_enabled\<close> and
  \<^verbatim>\<open>set_fusion_enabled\<close> of
  \<^verbatim>\<open>modules/spaint/src/pipelinecomponents/SLAMComponent.cpp\<close>.

  The member function is translated statement by statement into state passing. The
  objects it calls (image source, view builder, tracking controller, relocaliser, pose
  database, dense mapper, fallible tracker) belong to other libraries; they are parameters
  of the model, a record of functions over an arbitrary type \<open>'w\<close> that stands for
  everything those objects own (images, view, scene, render state, keyframe database).
  Poses are an arbitrary type \<open>'p\<close>, the pose database an arbitrary type \<open>'d\<close>.
\<close>

subsection \<open>Data\<close>

text \<open>\<^verbatim>\<open>ITMTrackingState::TrackingResult\<close>, as far as \<^verbatim>\<open>run\<close> distinguishes its values.\<close>

datatype TrackingResult = TRACKING_GOOD | TRACKING_POOR | TRACKING_FAILED

text \<open>\<^verbatim>\<open>ITMLibSettings::FailureMode\<close>: the three labels of the \<^verbatim>\<open>switch\<close> in \<^verbatim>\<open>run\<close>.\<close>

datatype FailureMode =
  FAILUREMODE_RELOCALISE | FAILUREMODE_STOP_INTEGRATION | FAILUREMODE_IGNORE

text \<open>
  The two fields of the tracking state that \<^verbatim>\<open>run\<close> reads and writes. Everything else in
  the tracking state (point cloud, its age and pose) is only used by the collaborators and
  is part of \<open>'w\<close>.
\<close>

record 'p ITMTrackingState =
  pose_d :: 'p
  trackerResult :: TrackingResult

text \<open>
  The calls \<^verbatim>\<open>run\<close> makes on its collaborators, with the flags it passes. The component
  state keeps the sequence of calls made so far (field \<open>calls\<close> below), so that which
  calls a frame makes, and in which order, can be stated. The \<^verbatim>\<open>const\<close> queries
  (\<^verbatim>\<open>hasMoreImages\<close>, \<^verbatim>\<open>lost_tracking\<close>) are not recorded.
\<close>

datatype call =
    Call_getImages
  | Call_UpdateView
  | Call_Track
  | Call_UpdateHostFromDevice
  | Call_Relocaliser_ProcessFrame bool
  | Call_storePose int
  | Call_retrievePose int
  | Call_UpdateVisibleList "bool option"
  | Call_Prepare
  | Call_DenseMapper_ProcessFrame

text \<open>
  The collaborators. Keyframe ids are C++ \<^verbatim>\<open>int\<close>s that \<^verbatim>\<open>run\<close> only compares with
  \<open>0\<close> and \<open>-1\<close>; they are modelled as \<^typ>\<open>int\<close>.

  \<^descr>[\<open>behaviourOnFailure\<close>] \<^verbatim>\<open>m_context->get_settings()->behaviourOnFailure\<close>.
  \<^descr>[\<open>hasMoreImages\<close>] \<^verbatim>\<open>m_imageSourceEngine->hasMoreImages()\<close>.
  \<^descr>[\<open>currentSubengine_hasMoreImages\<close>]
    \<^verbatim>\<open>m_imageSourceEngine->getCurrentSubengine()->hasMoreImages()\<close>.
  \<^descr>[\<open>Track\<close>] \<^verbatim>\<open>m_trackingController->Track(trackingState, view)\<close>: it may write the
    pose and the result of the tracking state.
  \<^descr>[\<open>Relocaliser_ProcessFrame\<close>] \<^verbatim>\<open>m_relocaliser->ProcessFrame(depth, 1, &nearestNeighbour,
    NULL, considerKeyframe)\<close>: the pair is the returned keyframe id and the value written to
    \<^verbatim>\<open>nearestNeighbour\<close>.
  \<^descr>[\<open>storePose\<close>, \<open>retrievePose\<close>] the pose database, an object that only the component
    holds (it is created in the constructor). The scene id \<open>0\<close> passed to \<^verbatim>\<open>storePose\<close>
    is dropped.
  \<^descr>[\<open>UpdateVisibleList\<close>] \<^verbatim>\<open>m_denseMapper->UpdateVisibleList\<close>; the last argument is
    \<^verbatim>\<open>resetVisibleList\<close>, \<open>None\<close> where the call leaves it to the declaration's default.
  \<^descr>[\<open>DenseMapper_ProcessFrame\<close>] \<^verbatim>\<open>m_denseMapper->ProcessFrame\<close>, the fusion.
  \<^descr>[\<open>lost_tracking\<close>] \<^verbatim>\<open>m_fallibleTracker\<close>: \<open>None\<close> for the null pointer, otherwise
    its \<^verbatim>\<open>lost_tracking()\<close> query.

  Modelled from the spec: the declarations of \<^verbatim>\<open>ITMTrackingController::Prepare\<close>,
  \<^verbatim>\<open>ITMDenseMapper::UpdateVisibleList\<close> and \<^verbatim>\<open>ITMDenseMapper::ProcessFrame\<close> are not
  part of the source. The specification (sections 3 and 6) gives them no result and names
  the tracker's track step as the only collaborator that writes pose and verdict; so here
  they read the tracking state and change \<open>'w\<close> only.
\<close>

record ('w, 'p, 'd) collaborators =
  behaviourOnFailure :: FailureMode
  hasMoreImages :: "'w \<Rightarrow> bool"
  currentSubengine_hasMoreImages :: "'w \<Rightarrow> bool"
  getImages :: "'w \<Rightarrow> 'w"
  UpdateView :: "'w \<Rightarrow> 'w"
  Track :: "'w \<Rightarrow> 'p ITMTrackingState \<Rightarrow> 'p ITMTrackingState \<times> 'w"
  UpdateHostFromDevice :: "'w \<Rightarrow> 'w"
  Relocaliser_ProcessFrame :: "'w \<Rightarrow> bool \<Rightarrow> (int \<times> int) \<times> 'w"
  storePose :: "'d \<Rightarrow> int \<Rightarrow> 'p \<Rightarrow> 'd"
  retrievePose :: "'d \<Rightarrow> int \<Rightarrow> 'p"
  UpdateVisibleList :: "'w \<Rightarrow> 'p ITMTrackingState \<Rightarrow> bool option \<Rightarrow> 'w"
  Prepare :: "'w \<Rightarrow> 'p ITMTrackingState \<Rightarrow> 'w"
  DenseMapper_ProcessFrame :: "'w \<Rightarrow> 'p ITMTrackingState \<Rightarrow> 'w"
  lost_tracking :: "('w \<Rightarrow> bool) option"

text \<open>
  The component: its data members, the tracking state of its scene, the state of the
  collaborators, and the calls made so far.

  Modelled from the spec: the member declarations (\<^verbatim>\<open>SLAMComponent.h\<close>) are not part of
  the source; the specification describes \<open>fusedFramesCount\<close>, \<open>initialFramesToFuse\<close> and
  \<open>keyframeDelay\<close> as counters without a bound, so they are natural numbers.
\<close>

record ('w, 'p, 'd) SLAMComponent =
  m_fusedFramesCount :: nat
  m_fusionEnabled :: bool
  m_initialFramesToFuse :: nat
  m_keyframeDelay :: nat
  m_poseDatabase :: 'd
  trackingState :: "'p ITMTrackingState"
  world :: 'w
  calls :: "call list"

text \<open>The member initialisers of the constructor (lines 32 to 36).\<close>

definition SLAMComponent_init ::
  "'d \<Rightarrow> 'p ITMTrackingState \<Rightarrow> 'w \<Rightarrow> ('w, 'p, 'd) SLAMComponent" where
  "SLAMComponent_init db ts w =
     \<lparr>m_fusedFramesCount = 0, m_fusionEnabled = True, m_initialFramesToFuse = 50,
      m_keyframeDelay = 0, m_poseDatabase = db, trackingState = ts, world = w, calls = []\<rparr>"

text \<open>
  The local variables of the \<^verbatim>\<open>FAILUREMODE_RELOCALISE\<close> block and of one call of
  \<^verbatim>\<open>run\<close>. \<open>trackerResult_raw\<close> is \<^verbatim>\<open>trackerResult\<close> as initialised at line 119,
  \<open>trackerResult_eff\<close> its value after the \<^verbatim>\<open>switch\<close> (line 183).
\<close>

record reloc_locals =
  considerKeyframe :: bool
  keyframeID :: int
  nearestNeighbour :: int

record 'p frame =
  oldPose :: 'p
  trackerResult_raw :: TrackingResult
  reloc :: "reloc_locals option"
  trackerResult_eff :: TrackingResult
  runFusion :: bool

subsection \<open>The collaborator calls\<close>

definition call_Track ::
  "('w, 'p, 'd) collaborators \<Rightarrow> ('w, 'p, 'd) SLAMComponent \<Rightarrow> ('w, 'p, 'd) SLAMComponent" where
  "call_Track c s =
     s\<lparr>trackingState := fst (Track c (world s) (trackingState s)),
       world := snd (Track c (world s) (trackingState s)),
       calls := calls s @ [Call_Track]\<rparr>"

definition call_UpdateVisibleList ::
  "('w, 'p, 'd) collaborators \<Rightarrow> bool option \<Rightarrow> ('w, 'p, 'd) SLAMComponent
     \<Rightarrow> ('w, 'p, 'd) SLAMComponent" where
  "call_UpdateVisibleList c resetVisibleList s =
     s\<lparr>world := UpdateVisibleList c (world s) (trackingState s) resetVisibleList,
       calls := calls s @ [Call_UpdateVisibleList resetVisibleList]\<rparr>"

definition call_Prepare ::
  "('w, 'p, 'd) collaborators \<Rightarrow> ('w, 'p, 'd) SLAMComponent \<Rightarrow> ('w, 'p, 'd) SLAMComponent" where
  "call_Prepare c s =
     s\<lparr>world := Prepare c (world s) (trackingState s), calls := calls s @ [Call_Prepare]\<rparr>"

definition call_DenseMapper_ProcessFrame ::
  "('w, 'p, 'd) collaborators \<Rightarrow> ('w, 'p, 'd) SLAMComponent \<Rightarrow> ('w, 'p, 'd) SLAMComponent" where
  "call_DenseMapper_ProcessFrame c s =
     s\<lparr>world := DenseMapper_ProcessFrame c (world s) (trackingState s),
       calls := calls s @ [Call_DenseMapper_ProcessFrame]\<rparr>"

subsection \<open>\<^verbatim>\<open>run\<close>, in the order of its statements\<close>

text \<open>Lines 107 to 112: get the next frame and build the view.\<close>

definition acquire_frame ::
  "('w, 'p, 'd) collaborators \<Rightarrow> ('w, 'p, 'd) SLAMComponent \<Rightarrow> ('w, 'p, 'd) SLAMComponent" where
  "acquire_frame c s =
     s\<lparr>world := UpdateView c (getImages c (world s)),
       calls := calls s @ [Call_getImages, Call_UpdateView]\<rparr>"

text \<open>Line 116: track the camera once a frame has been fused.\<close>

definition track_camera ::
  "('w, 'p, 'd) collaborators \<Rightarrow> ('w, 'p, 'd) SLAMComponent \<Rightarrow> ('w, 'p, 'd) SLAMComponent" where
  "track_camera c s = (if 0 < m_fusedFramesCount s then call_Track c s else s)"

text \<open>
  Lines 128 to 133: the value of \<^verbatim>\<open>considerKeyframe\<close> and the new value of
  \<^verbatim>\<open>m_keyframeDelay\<close>.
\<close>

definition decide_keyframe :: "TrackingResult \<Rightarrow> nat \<Rightarrow> bool \<times> nat" where
  "decide_keyframe tr delay =
     (if tr = TRACKING_GOOD then (if delay = 0 then (True, delay) else (False, delay - 1))
      else (False, delay))"

text \<open>
  Lines 122 to 165, the case \<^verbatim>\<open>FAILUREMODE_RELOCALISE\<close>. The result is the value of
  \<^verbatim>\<open>trackerResult\<close> at the \<^verbatim>\<open>break\<close>, the locals of the block, and the component.
\<close>

definition relocalise ::
  "('w, 'p, 'd) collaborators \<Rightarrow> ('w, 'p, 'd) SLAMComponent
     \<Rightarrow> TrackingResult \<times> reloc_locals \<times> ('w, 'p, 'd) SLAMComponent" where
  "relocalise c s =
     (let tr = trackerResult (trackingState s);
          s1 = s\<lparr>world := UpdateHostFromDevice c (world s),
                 calls := calls s @ [Call_UpdateHostFromDevice]\<rparr>;
          ck = fst (decide_keyframe tr (m_keyframeDelay s1));
          s2 = s1\<lparr>m_keyframeDelay := snd (decide_keyframe tr (m_keyframeDelay s1))\<rparr>;
          res = Relocaliser_ProcessFrame c (world s2) ck;
          kid = fst (fst res);
          nn = snd (fst res);
          s3 = s2\<lparr>world := snd res, calls := calls s2 @ [Call_Relocaliser_ProcessFrame ck]\<rparr>;
          rl = \<lparr>considerKeyframe = ck, keyframeID = kid, nearestNeighbour = nn\<rparr>
      in if 0 \<le> kid then
           (tr, rl,
            s3\<lparr>m_poseDatabase := storePose c (m_poseDatabase s3) kid (pose_d (trackingState s3)),
               calls := calls s3 @ [Call_storePose kid]\<rparr>)
         else if tr = TRACKING_FAILED \<and> nn \<noteq> - 1 then
           (let s4 = s3\<lparr>trackingState :=
                          (trackingState s3)\<lparr>pose_d := retrievePose c (m_poseDatabase s3) nn\<rparr>,
                        calls := calls s3 @ [Call_retrievePose nn]\<rparr>;
                s5 = call_UpdateVisibleList c (Some True) s4;
                s6 = call_Prepare c s5;
                s7 = call_Track c s6
            in (trackerResult (trackingState s7), rl, s7\<lparr>m_keyframeDelay := 10\<rparr>))
         else (tr, rl, s3))"

text \<open>
  Lines 119 to 181: the tracking quality under the failure mode in use. The \<^verbatim>\<open>default\<close>
  label shares the block of \<^verbatim>\<open>FAILUREMODE_IGNORE\<close>.
\<close>

definition resolve_failure_mode ::
  "('w, 'p, 'd) collaborators \<Rightarrow> ('w, 'p, 'd) SLAMComponent
     \<Rightarrow> TrackingResult \<times> reloc_locals option \<times> ('w, 'p, 'd) SLAMComponent" where
  "resolve_failure_mode c s =
     (case behaviourOnFailure c of
        FAILUREMODE_RELOCALISE \<Rightarrow>
          (fst (relocalise c s), Some (fst (snd (relocalise c s))), snd (snd (relocalise c s)))
      | FAILUREMODE_STOP_INTEGRATION \<Rightarrow>
          (if trackerResult (trackingState s) = TRACKING_FAILED then TRACKING_POOR
           else trackerResult (trackingState s), None, s)
      | FAILUREMODE_IGNORE \<Rightarrow> (TRACKING_GOOD, None, s))"

text \<open>Lines 184 to 190: whether fusion is run.\<close>

definition decide_fusion ::
  "('w, 'p, 'd) collaborators \<Rightarrow> ('w, 'p, 'd) SLAMComponent \<Rightarrow> TrackingResult \<Rightarrow> bool" where
  "decide_fusion c s tr =
     (if tr = TRACKING_FAILED
         \<or> (tr = TRACKING_POOR \<and> m_initialFramesToFuse s \<le> m_fusedFramesCount s)
         \<or> (case lost_tracking c of None \<Rightarrow> False | Some lost \<Rightarrow> lost (world s))
      then False else m_fusionEnabled s)"

text \<open>Lines 192 to 207: fuse, or update the visible list, or restore the pose.\<close>

definition apply_outcome ::
  "('w, 'p, 'd) collaborators \<Rightarrow> 'p \<Rightarrow> TrackingResult \<Rightarrow> bool \<Rightarrow> ('w, 'p, 'd) SLAMComponent
     \<Rightarrow> ('w, 'p, 'd) SLAMComponent" where
  "apply_outcome c old tr fuse s =
     (if fuse then
        (call_DenseMapper_ProcessFrame c s)\<lparr>m_fusedFramesCount := m_fusedFramesCount s + 1\<rparr>
      else if tr \<noteq> TRACKING_FAILED then call_UpdateVisibleList c None s
      else s\<lparr>trackingState := (trackingState s)\<lparr>pose_d := old\<rparr>\<rparr>)"

text \<open>Line 213: disable fusion when the current sub-engine has run out of images.\<close>

definition check_exhaustion ::
  "('w, 'p, 'd) collaborators \<Rightarrow> ('w, 'p, 'd) SLAMComponent \<Rightarrow> ('w, 'p, 'd) SLAMComponent" where
  "check_exhaustion c s =
     (if \<not> currentSubengine_hasMoreImages c (world s) then s\<lparr>m_fusionEnabled := False\<rparr> else s)"

text \<open>Lines 100 to 213: the body of \<^verbatim>\<open>run\<close> after the guard, with its local variables.\<close>

definition run_body ::
  "('w, 'p, 'd) collaborators \<Rightarrow> ('w, 'p, 'd) SLAMComponent
     \<Rightarrow> 'p frame \<times> ('w, 'p, 'd) SLAMComponent" where
  "run_body c s =
     (let s1 = acquire_frame c s;
          old = pose_d (trackingState s1);
          s2 = track_camera c s1;
          r = resolve_failure_mode c s2;
          tr = fst r;
          s3 = snd (snd r);
          fuse = decide_fusion c s3 tr;
          s4 = apply_outcome c old tr fuse s3;
          s5 = call_Prepare c s4
      in (\<lparr>oldPose = old, trackerResult_raw = trackerResult (trackingState s2),
            reloc = fst (snd r), trackerResult_eff = tr, runFusion = fuse\<rparr>,
          check_exhaustion c s5))"

text \<open>Lines 96 to 216.\<close>

definition run ::
  "('w, 'p, 'd) collaborators \<Rightarrow> ('w, 'p, 'd) SLAMComponent
     \<Rightarrow> bool \<times> ('w, 'p, 'd) SLAMComponent" where
  "run c s = (if \<not> hasMoreImages c (world s) then (False, s) else (True, snd (run_body c s)))"

text \<open>Lines 91 to 94 and 218 to 221.\<close>

definition get_fusion_enabled :: "('w, 'p, 'd) SLAMComponent \<Rightarrow> bool" where
  "get_fusion_enabled s = m_fusionEnabled s"

definition set_fusion_enabled ::
  "bool \<Rightarrow> ('w, 'p, 'd) SLAMComponent \<Rightarrow> ('w, 'p, 'd) SLAMComponent" where
  "set_fusion_enabled fusionEnabled s = s\<lparr>m_fusionEnabled := fusionEnabled\<rparr>"

text \<open>The component when line 184 is reached: after tracking and the \<^verbatim>\<open>switch\<close>.\<close>

definition state_at_gate ::
  "('w, 'p, 'd) collaborators \<Rightarrow> ('w, 'p, 'd) SLAMComponent \<Rightarrow> ('w, 'p, 'd) SLAMComponent" where
  "state_at_gate c s = snd (snd (resolve_failure_mode c (track_camera c (acquire_frame c s))))"

subsection \<open>Sessions\<close>

text \<open>
  A session is a sequence of calls of the public member functions that change the
  component. \<open>session\<close> is the component after the calls, \<open>session_frames\<close> the local
  variables of the calls of \<^verbatim>\<open>run\<close> that processed a frame, in order.
\<close>

datatype request = Run | Set_fusion_enabled bool

fun session ::
  "('w, 'p, 'd) collaborators \<Rightarrow> request list \<Rightarrow> ('w, 'p, 'd) SLAMComponent
     \<Rightarrow> ('w, 'p, 'd) SLAMComponent" where
  "session c [] s = s"
| "session c (Run # rs) s = session c rs (snd (run c s))"
| "session c (Set_fusion_enabled b # rs) s = session c rs (set_fusion_enabled b s)"

fun session_frames ::
  "('w, 'p, 'd) collaborators \<Rightarrow> request list \<Rightarrow> ('w, 'p, 'd) SLAMComponent
     \<Rightarrow> 'p frame list" where
  "session_frames c [] s = []"
| "session_frames c (Run # rs) s =
     (if hasMoreImages c (world s) then [fst (run_body c s)] else [])
       @ session_frames c rs (snd (run c s))"
| "session_frames c (Set_fusion_enabled b # rs) s =
     session_frames c rs (set_fusion_enabled b s)"

text \<open>The calls made between two states of the component.\<close>

definition calls_since ::
  "('w, 'p, 'd) SLAMComponent \<Rightarrow> ('w, 'p, 'd) SLAMComponent \<Rightarrow> call list" where
  "calls_since s s' = drop (length (calls s)) (calls s')"

subsection \<open>Scripted collaborators\<close>

text \<open>
  A concrete set of collaborators on which \<^verbatim>\<open>run\<close> can be evaluated. The frames still to
  come are a list; each frame says what the tracker reports on it, what it reports when
  re-run after a relocalisation, whether the relocaliser finds it novel, whether the
  fallible tracker has lost tracking on it, and whether it is the last image of its
  sub-engine. Poses are numbers: tracking adds one to the pose. The relocaliser numbers its
  keyframes from \<open>0\<close> and names the latest one as nearest neighbour. The dense mapper keeps
  the poses at which frames were fused into the scene (\<open>scene\<close>) and the reset flags of the
  updates of its visible list (\<open>visible\<close>); the tracking controller keeps the poses it
  prepared from (\<open>rendered\<close>). The pose database ignores a negative id.
\<close>

record script_frame =
  sf_track :: TrackingResult
  sf_retrack :: TrackingResult
  sf_novel :: bool
  sf_lost :: bool
  sf_last :: bool

record script_world =
  pending :: "script_frame list"
  current :: script_frame
  tracked :: bool
  keyframes :: nat
  scene :: "nat list"
  visible :: "bool option list"
  rendered :: "nat list"

definition scripted_getImages :: "script_world \<Rightarrow> script_world" where
  "scripted_getImages w =
     (case pending w of [] \<Rightarrow> w
      | f # fs \<Rightarrow> w\<lparr>pending := fs, current := f, tracked := False\<rparr>)"

definition scripted_Track ::
  "script_world \<Rightarrow> nat ITMTrackingState \<Rightarrow> nat ITMTrackingState \<times> script_world" where
  "scripted_Track w ts =
     (\<lparr>pose_d = pose_d ts + 1,
       trackerResult = (if tracked w then sf_retrack (current w) else sf_track (current w))\<rparr>,
      w\<lparr>tracked := True\<rparr>)"

definition scripted_ProcessFrame :: "script_world \<Rightarrow> bool \<Rightarrow> (int \<times> int) \<times> script_world" where
  "scripted_ProcessFrame w harvest =
     (if harvest \<and> sf_novel (current w)
      then ((int (keyframes w), int (keyframes w) - 1), w\<lparr>keyframes := keyframes w + 1\<rparr>)
      else ((- 1, int (keyframes w) - 1), w))"

definition scripted ::
  "FailureMode \<Rightarrow> (script_world, nat, int \<Rightarrow> nat) collaborators" where
  "scripted mode =
     \<lparr>behaviourOnFailure = mode,
      hasMoreImages = (\<lambda>w. pending w \<noteq> []),
      currentSubengine_hasMoreImages = (\<lambda>w. \<not> sf_last (current w)),
      getImages = scripted_getImages,
      UpdateView = (\<lambda>w. w),
      Track = scripted_Track,
      UpdateHostFromDevice = (\<lambda>w. w),
      Relocaliser_ProcessFrame = scripted_ProcessFrame,
      storePose = (\<lambda>d i p. if i < 0 then d else d(i := p)),
      retrievePose = (\<lambda>d i. d i),
      UpdateVisibleList = (\<lambda>w ts r. w\<lparr>visible := visible w @ [r]\<rparr>),
      Prepare = (\<lambda>w ts. w\<lparr>rendered := rendered w @ [pose_d ts]\<rparr>),
      DenseMapper_ProcessFrame = (\<lambda>w ts. w\<lparr>scene := scene w @ [pose_d ts]\<rparr>),
      lost_tracking = Some (\<lambda>w. sf_lost (current w))\<rparr>"

definition plain_frame :: "TrackingResult \<Rightarrow> script_frame" where
  "plain_frame tr =
     \<lparr>sf_track = tr, sf_retrack = tr, sf_novel = True, sf_lost = False, sf_last = False\<rparr>"

text \<open>
  The component as constructed (\<open>SLAMComponent_init\<close>), with pose \<open>5\<close>, an empty pose
  database and the given frames to come.
\<close>

definition scripted_start :: "script_frame list \<Rightarrow> (script_world, nat, int \<Rightarrow> nat) SLAMComponent" where
  "scripted_start fs =
     SLAMComponent_init (\<lambda>i. 0) \<lparr>pose_d = 5, trackerResult = TRACKING_GOOD\<rparr>
       \<lparr>pending = fs, current = plain_frame TRACKING_GOOD, tracked = False, keyframes = 0,
        scene = [], visible = [], rendered = []\<rparr>"

text \<open>
  A component in mid-session: \<open>n\<close> frames fused, pose \<open>5\<close>, keyframe delay \<open>0\<close>, and three
  keyframes \<open>0\<close>, \<open>1\<close>, \<open>2\<close> whose stored poses are \<open>100\<close>, \<open>101\<close>, \<open>102\<close>. What the
  collaborators recorded before is left out: \<open>scene\<close>, \<open>visible\<close> and \<open>rendered\<close> start
  empty.
\<close>

definition scripted_mid ::
  "nat \<Rightarrow> script_frame list \<Rightarrow> (script_world, nat, int \<Rightarrow> nat) SLAMComponent" where
  "scripted_mid n fs =
     \<lparr>m_fusedFramesCount = n, m_fusionEnabled = True, m_initialFramesToFuse = 50,
      m_keyframeDelay = 0, m_poseDatabase = (\<lambda>i. 100 + nat i),
      trackingState = \<lparr>pose_d = 5, trackerResult = TRACKING_GOOD\<rparr>,
      world = \<lparr>pending = fs, current = plain_frame TRACKING_GOOD, tracked = False,
               keyframes = 3, scene = [], visible = [], rendered = []\<rparr>,
      calls = []\<rparr>"

text \<open>
  Thirteen frames: tracking fails on the first; of the twelve that follow, all are tracked
  well but the sixth, on which tracking is poor.
\<close>

definition interrupted_frames :: "script_frame list" where
  "interrupted_frames = map plain_frame
     [TRACKING_FAILED,
      TRACKING_GOOD, TRACKING_GOOD, TRACKING_GOOD, TRACKING_GOOD, TRACKING_GOOD,
      TRACKING_POOR,
      TRACKING_GOOD, TRACKING_GOOD, TRACKING_GOOD, TRACKING_GOOD, TRACKING_GOOD,
      TRACKING_GOOD]"

text \<open>Two frames: the last image of one sub-engine, then the first image of the next.\<close>

definition two_subengines :: "script_frame list" where
  "two_subengines = [(plain_frame TRACKING_GOOD)\<lparr>sf_last := True\<rparr>, plain_frame TRACKING_GOOD]"

section \<open>What each step of \<^verbatim>\<open>run\<close> changes\<close>

lemmas call_defs = call_Track_def call_UpdateVisibleList_def call_Prepare_def
  call_DenseMapper_ProcessFrame_def

lemma calls_since_append: "calls s' = calls s @ xs \<Longrightarrow> calls_since s s' = xs"
  by (simp add: calls_since_def)

lemma relocalise_members:
  "m_fusionEnabled (snd (snd (relocalise c s))) = m_fusionEnabled s"
  "m_fusedFramesCount (snd (snd (relocalise c s))) = m_fusedFramesCount s"
  "m_initialFramesToFuse (snd (snd (relocalise c s))) = m_initialFramesToFuse s"
  by (simp_all add: relocalise_def call_defs Let_def)

lemma relocalise_calls:
  "\<exists>xs. calls (snd (snd (relocalise c s))) = calls s @ xs \<and> Call_DenseMapper_ProcessFrame \<notin> set xs"
  by (simp add: relocalise_def call_defs Let_def)

lemma resolve_members:
  "m_fusionEnabled (snd (snd (resolve_failure_mode c s))) = m_fusionEnabled s"
  "m_fusedFramesCount (snd (snd (resolve_failure_mode c s))) = m_fusedFramesCount s"
  "m_initialFramesToFuse (snd (snd (resolve_failure_mode c s))) = m_initialFramesToFuse s"
  by (simp_all add: resolve_failure_mode_def relocalise_members split: FailureMode.splits)

lemma resolve_calls:
  "\<exists>xs. calls (snd (snd (resolve_failure_mode c s))) = calls s @ xs \<and> Call_DenseMapper_ProcessFrame \<notin> set xs"
  using relocalise_calls [of c s]
  by (simp add: resolve_failure_mode_def split: FailureMode.splits)

lemma track_camera_members:
  "m_fusionEnabled (track_camera c s) = m_fusionEnabled s"
  "m_fusedFramesCount (track_camera c s) = m_fusedFramesCount s"
  "m_initialFramesToFuse (track_camera c s) = m_initialFramesToFuse s"
  "m_keyframeDelay (track_camera c s) = m_keyframeDelay s"
  "m_poseDatabase (track_camera c s) = m_poseDatabase s"
  by (simp_all add: track_camera_def call_defs)

lemma acquire_frame_members:
  "m_fusionEnabled (acquire_frame c s) = m_fusionEnabled s"
  "m_fusedFramesCount (acquire_frame c s) = m_fusedFramesCount s"
  "m_initialFramesToFuse (acquire_frame c s) = m_initialFramesToFuse s"
  "m_keyframeDelay (acquire_frame c s) = m_keyframeDelay s"
  "m_poseDatabase (acquire_frame c s) = m_poseDatabase s"
  "trackingState (acquire_frame c s) = trackingState s"
  by (simp_all add: acquire_frame_def)

lemma track_camera_calls:
  "calls (track_camera c s) = calls s @ (if 0 < m_fusedFramesCount s then [Call_Track] else [])"
  by (simp add: track_camera_def call_defs)

lemma run_processes: "hasMoreImages c (world s) \<Longrightarrow> run c s = (True, snd (run_body c s))"
  by (simp add: run_def)

lemma runFusion_eq:
  "runFusion (fst (run_body c s)) =
     (m_fusionEnabled s \<and> trackerResult_eff (fst (run_body c s)) \<noteq> TRACKING_FAILED
      \<and> (trackerResult_eff (fst (run_body c s)) \<noteq> TRACKING_POOR \<or> m_fusedFramesCount s < m_initialFramesToFuse s)
      \<and> (\<forall>lost. lost_tracking c = Some lost \<longrightarrow> \<not> lost (world (state_at_gate c s))))"
  by (auto simp add: run_body_def state_at_gate_def decide_fusion_def resolve_members
      track_camera_members acquire_frame_members Let_def split: option.splits)

lemma acquire_frame_calls:
  "calls (acquire_frame c s) = calls s @ [Call_getImages, Call_UpdateView]"
  by (simp add: acquire_frame_def)

lemma check_exhaustion_fields:
  "calls (check_exhaustion c s) = calls s"
  "m_fusedFramesCount (check_exhaustion c s) = m_fusedFramesCount s"
  "m_keyframeDelay (check_exhaustion c s) = m_keyframeDelay s"
  "m_poseDatabase (check_exhaustion c s) = m_poseDatabase s"
  "trackingState (check_exhaustion c s) = trackingState s"
  "world (check_exhaustion c s) = world s"
  "m_fusionEnabled (check_exhaustion c s) = (m_fusionEnabled s \<and> currentSubengine_hasMoreImages c (world s))"
  by (simp_all add: check_exhaustion_def)

lemma apply_outcome_calls:
  "calls (apply_outcome c old tr fuse s) = calls s @
     (if fuse then [Call_DenseMapper_ProcessFrame]
      else if tr \<noteq> TRACKING_FAILED then [Call_UpdateVisibleList None] else [])"
  by (simp add: apply_outcome_def call_defs)

lemma run_body_calls:
  "\<exists>xs. Call_DenseMapper_ProcessFrame \<notin> set xs \<and>
     calls (state_at_gate c s) = calls s @ [Call_getImages, Call_UpdateView]
        @ (if 0 < m_fusedFramesCount s then [Call_Track] else []) @ xs \<and>
     calls (snd (run_body c s)) = calls s @ [Call_getImages, Call_UpdateView]
        @ (if 0 < m_fusedFramesCount s then [Call_Track] else []) @ xs
        @ (if runFusion (fst (run_body c s)) then [Call_DenseMapper_ProcessFrame]
           else if trackerResult_eff (fst (run_body c s)) \<noteq> TRACKING_FAILED
           then [Call_UpdateVisibleList None] else [])
        @ [Call_Prepare]"
proof -
  obtain xs where xs: "calls (snd (snd (resolve_failure_mode c (track_camera c (acquire_frame c s)))))
      = calls (track_camera c (acquire_frame c s)) @ xs" "Call_DenseMapper_ProcessFrame \<notin> set xs"
    using resolve_calls by blast
  have "calls (snd (run_body c s)) = calls s @ [Call_getImages, Call_UpdateView]
        @ (if 0 < m_fusedFramesCount s then [Call_Track] else []) @ xs
        @ (if runFusion (fst (run_body c s)) then [Call_DenseMapper_ProcessFrame]
           else if trackerResult_eff (fst (run_body c s)) \<noteq> TRACKING_FAILED
           then [Call_UpdateVisibleList None] else [])
        @ [Call_Prepare]"
    by (simp add: run_body_def Let_def check_exhaustion_fields call_Prepare_def apply_outcome_calls
         xs track_camera_calls acquire_frame_calls acquire_frame_members)
  moreover have "calls (state_at_gate c s) = calls s @ [Call_getImages, Call_UpdateView]
        @ (if 0 < m_fusedFramesCount s then [Call_Track] else []) @ xs"
    by (simp add: state_at_gate_def xs track_camera_calls acquire_frame_calls acquire_frame_members)
  ultimately show ?thesis using xs(2) by blast
qed

lemma fuse_called:
  "(Call_DenseMapper_ProcessFrame \<in> set (calls_since s (snd (run_body c s)))) = runFusion (fst (run_body c s))"
proof -
  obtain xs where xs: "Call_DenseMapper_ProcessFrame \<notin> set xs"
    "calls (snd (run_body c s)) = calls s @ [Call_getImages, Call_UpdateView]
        @ (if 0 < m_fusedFramesCount s then [Call_Track] else []) @ xs
        @ (if runFusion (fst (run_body c s)) then [Call_DenseMapper_ProcessFrame]
           else if trackerResult_eff (fst (run_body c s)) \<noteq> TRACKING_FAILED
           then [Call_UpdateVisibleList None] else [])
        @ [Call_Prepare]"
    using run_body_calls [of c s] by blast
  show ?thesis
    by (simp add: calls_since_append [OF xs(2)] xs(1))
qed

lemma count_step:
  "m_fusedFramesCount (snd (run_body c s)) = m_fusedFramesCount s + (if runFusion (fst (run_body c s)) then 1 else 0)"
  by (simp add: run_body_def Let_def check_exhaustion_fields call_defs apply_outcome_def
      resolve_members track_camera_members acquire_frame_members)

lemma calls_since_self: "calls_since s s = []"
  by (simp add: calls_since_def)

lemma run_count_mono: "m_fusedFramesCount s \<le> m_fusedFramesCount (snd (run c s))"
  by (simp add: run_def count_step)

lemma session_count_mono: "m_fusedFramesCount s \<le> m_fusedFramesCount (session c rs s)"
proof (induction rs arbitrary: s)
  case Nil
  show ?case by simp
next
  case (Cons r rs)
  show ?case
  proof (cases r)
    case Run
    have "m_fusedFramesCount s \<le> m_fusedFramesCount (snd (run c s))"
      by (rule run_count_mono)
    also have "\<dots> \<le> m_fusedFramesCount (session c rs (snd (run c s)))"
      by (rule Cons.IH)
    finally show ?thesis using Run by simp
  next
    case (Set_fusion_enabled b)
    have "m_fusedFramesCount s = m_fusedFramesCount (set_fusion_enabled b s)"
      by (simp add: set_fusion_enabled_def)
    also have "\<dots> \<le> m_fusedFramesCount (session c rs (set_fusion_enabled b s))"
      by (rule Cons.IH)
    finally show ?thesis using Set_fusion_enabled by simp
  qed
qed

lemma frame_fields:
  "oldPose (fst (run_body c s)) = pose_d (trackingState s)"
  "trackerResult_raw (fst (run_body c s)) = trackerResult (trackingState (track_camera c (acquire_frame c s)))"
  "reloc (fst (run_body c s)) = fst (snd (resolve_failure_mode c (track_camera c (acquire_frame c s))))"
  "trackerResult_eff (fst (run_body c s)) = fst (resolve_failure_mode c (track_camera c (acquire_frame c s)))"
  "runFusion (fst (run_body c s)) = decide_fusion c (state_at_gate c s) (trackerResult_eff (fst (run_body c s)))"
  by (simp_all add: run_body_def Let_def state_at_gate_def acquire_frame_members)

lemma run_body_after_gate:
  "snd (run_body c s) = check_exhaustion c (call_Prepare c
      (apply_outcome c (pose_d (trackingState s)) (trackerResult_eff (fst (run_body c s)))
         (runFusion (fst (run_body c s))) (state_at_gate c s)))"
  by (simp add: run_body_def Let_def state_at_gate_def acquire_frame_members)

lemma apply_outcome_fields:
  "trackingState (apply_outcome c old tr fuse s) =
     (if \<not> fuse \<and> tr = TRACKING_FAILED then (trackingState s)\<lparr>pose_d := old\<rparr> else trackingState s)"
  "m_keyframeDelay (apply_outcome c old tr fuse s) = m_keyframeDelay s"
  "m_poseDatabase (apply_outcome c old tr fuse s) = m_poseDatabase s"
  "m_fusionEnabled (apply_outcome c old tr fuse s) = m_fusionEnabled s"
  "m_initialFramesToFuse (apply_outcome c old tr fuse s) = m_initialFramesToFuse s"
  by (simp_all add: apply_outcome_def call_defs)

lemma call_Prepare_fields:
  "trackingState (call_Prepare c s) = trackingState s"
  "m_keyframeDelay (call_Prepare c s) = m_keyframeDelay s"
  "m_poseDatabase (call_Prepare c s) = m_poseDatabase s"
  "m_fusionEnabled (call_Prepare c s) = m_fusionEnabled s"
  "m_fusedFramesCount (call_Prepare c s) = m_fusedFramesCount s"
  "m_initialFramesToFuse (call_Prepare c s) = m_initialFramesToFuse s"
  by (simp_all add: call_defs)

lemma check_exhaustion_initialFramesToFuse:
  "m_initialFramesToFuse (check_exhaustion c s) = m_initialFramesToFuse s"
  by (simp add: check_exhaustion_def)

lemma decide_fusion_FAILED: "\<not> decide_fusion c s TRACKING_FAILED"
  by (simp add: decide_fusion_def)

lemma run_body_trackingState:
  "trackingState (snd (run_body c s)) =
     (if trackerResult_eff (fst (run_body c s)) = TRACKING_FAILED
      then (trackingState (state_at_gate c s))\<lparr>pose_d := pose_d (trackingState s)\<rparr>
      else trackingState (state_at_gate c s))"
proof (cases "trackerResult_eff (fst (run_body c s)) = TRACKING_FAILED")
  case True
  then have "\<not> runFusion (fst (run_body c s))"
    by (simp add: frame_fields(5) decide_fusion_FAILED)
  with True show ?thesis
    by (simp add: run_body_after_gate check_exhaustion_fields call_Prepare_fields
        apply_outcome_fields)
next
  case False
  then show ?thesis
    by (simp add: run_body_after_gate check_exhaustion_fields call_Prepare_fields
        apply_outcome_fields)
qed

lemma run_body_members:
  "m_keyframeDelay (snd (run_body c s)) = m_keyframeDelay (state_at_gate c s)"
  "m_poseDatabase (snd (run_body c s)) = m_poseDatabase (state_at_gate c s)"
  "m_initialFramesToFuse (snd (run_body c s)) = m_initialFramesToFuse s"
  by (simp_all add: run_body_after_gate check_exhaustion_fields call_Prepare_fields
      apply_outcome_fields check_exhaustion_initialFramesToFuse state_at_gate_def
      resolve_members track_camera_members acquire_frame_members)

lemma run_body_fusionEnabled:
  "m_fusionEnabled (snd (run_body c s)) =
     (m_fusionEnabled s \<and> currentSubengine_hasMoreImages c (world (snd (run_body c s))))"
proof -
  have "m_fusionEnabled (state_at_gate c s) = m_fusionEnabled s"
    by (simp add: state_at_gate_def resolve_members track_camera_members acquire_frame_members)
  then show ?thesis
    by (simp add: run_body_after_gate check_exhaustion_fields call_Prepare_fields
        apply_outcome_fields)
qed

lemma track_camera_skip: "m_fusedFramesCount s = 0 \<Longrightarrow> track_camera c s = s"
  by (simp add: track_camera_def)

lemma resolve_IGNORE:
  "behaviourOnFailure c = FAILUREMODE_IGNORE \<Longrightarrow> resolve_failure_mode c s = (TRACKING_GOOD, None, s)"
  by (simp add: resolve_failure_mode_def)

lemma resolve_RELOCALISE:
  "behaviourOnFailure c = FAILUREMODE_RELOCALISE \<Longrightarrow>
     resolve_failure_mode c s = (fst (relocalise c s), Some (fst (snd (relocalise c s))), snd (snd (relocalise c s)))"
  by (simp add: resolve_failure_mode_def)

lemma relocalise_locals:
  "fst (snd (relocalise c s)) =
     \<lparr>considerKeyframe = (trackerResult (trackingState s) = TRACKING_GOOD \<and> m_keyframeDelay s = 0),
      keyframeID = fst (fst (Relocaliser_ProcessFrame c (UpdateHostFromDevice c (world s))
          (trackerResult (trackingState s) = TRACKING_GOOD \<and> m_keyframeDelay s = 0))),
      nearestNeighbour = snd (fst (Relocaliser_ProcessFrame c (UpdateHostFromDevice c (world s))
          (trackerResult (trackingState s) = TRACKING_GOOD \<and> m_keyframeDelay s = 0)))\<rparr>"
  by (simp add: relocalise_def decide_keyframe_def Let_def)

lemma relocalise_recovery:
  assumes "trackerResult (trackingState s) = TRACKING_FAILED"
    and "keyframeID (fst (snd (relocalise c s))) < 0"
    and "nearestNeighbour (fst (snd (relocalise c s))) \<noteq> - 1"
  shows "fst (relocalise c s) = trackerResult (trackingState (snd (snd (relocalise c s))))"
    and "snd (snd (relocalise c s)) =
      call_Track c (call_Prepare c (call_UpdateVisibleList c (Some True)
        (s\<lparr>world := snd (Relocaliser_ProcessFrame c (UpdateHostFromDevice c (world s)) False),
           trackingState := (trackingState s)\<lparr>pose_d :=
              retrievePose c (m_poseDatabase s) (nearestNeighbour (fst (snd (relocalise c s))))\<rparr>,
           calls := calls s @ [Call_UpdateHostFromDevice, Call_Relocaliser_ProcessFrame False,
              Call_retrievePose (nearestNeighbour (fst (snd (relocalise c s))))]\<rparr>)))
        \<lparr>m_keyframeDelay := 10\<rparr>"
  using assms 
  by (simp_all add: relocalise_locals) (simp_all add: relocalise_def decide_keyframe_def Let_def)

lemma relocalise_store:
  assumes "0 \<le> keyframeID (fst (snd (relocalise c s)))"
  shows "fst (relocalise c s) = trackerResult (trackingState s)"
    and "trackingState (snd (snd (relocalise c s))) = trackingState s"
    and "m_poseDatabase (snd (snd (relocalise c s))) =
      storePose c (m_poseDatabase s) (keyframeID (fst (snd (relocalise c s)))) (pose_d (trackingState s))"
    and "\<exists>xs. calls (snd (snd (relocalise c s))) = calls s @ xs @ [Call_storePose (keyframeID (fst (snd (relocalise c s))))]"
  using assms 
  by (simp_all add: relocalise_locals) (auto simp add: relocalise_def decide_keyframe_def Let_def)

lemma relocalise_no_store:
  assumes "keyframeID (fst (snd (relocalise c s))) < 0"
  shows "m_poseDatabase (snd (snd (relocalise c s))) = m_poseDatabase s"
  using assms 
  by (simp add: relocalise_locals) (auto simp add: relocalise_def decide_keyframe_def call_defs Let_def)

lemma run_body_reloc:
  assumes "behaviourOnFailure c = FAILUREMODE_RELOCALISE"
  shows "reloc (fst (run_body c s)) = Some (fst (snd (relocalise c (track_camera c (acquire_frame c s)))))"
    and "state_at_gate c s = snd (snd (relocalise c (track_camera c (acquire_frame c s))))"
    and "trackerResult_eff (fst (run_body c s)) = fst (relocalise c (track_camera c (acquire_frame c s)))"
  using assms by (simp_all add: frame_fields state_at_gate_def resolve_RELOCALISE)

lemma considerKeyframe_eq:
  assumes "behaviourOnFailure c = FAILUREMODE_RELOCALISE"
    and "reloc (fst (run_body c s)) = Some rl"
  shows "considerKeyframe rl \<longleftrightarrow>
    trackerResult_raw (fst (run_body c s)) = TRACKING_GOOD \<and> m_keyframeDelay s = 0"
proof -
  have "rl = fst (snd (relocalise c (track_camera c (acquire_frame c s))))"
    using assms by (simp add: run_body_reloc)
  then show ?thesis
    by (simp add: relocalise_locals frame_fields track_camera_members acquire_frame_members)
qed

lemma run_fusionEnabled: "m_fusionEnabled (snd (run c s)) \<Longrightarrow> m_fusionEnabled s"
  by (simp add: run_def run_body_fusionEnabled split: if_splits)

lemma session_stays_disabled:
  "\<not> m_fusionEnabled s \<Longrightarrow> Set_fusion_enabled True \<notin> set rs \<Longrightarrow> \<not> m_fusionEnabled (session c rs s)"
proof (induction rs arbitrary: s)
  case Nil
  then show ?case by simp
next
  case (Cons r rs)
  show ?case
  proof (cases r)
    case Run
    have "\<not> m_fusionEnabled (snd (run c s))"
      using Cons.prems(1) run_fusionEnabled by blast
    then show ?thesis using Cons.IH Cons.prems(2) Run by simp
  next
    case (Set_fusion_enabled b)
    then have "\<not> b" using Cons.prems(2) by auto
    then have "\<not> m_fusionEnabled (set_fusion_enabled b s)"
      by (simp add: set_fusion_enabled_def)
    then show ?thesis using Cons.IH Cons.prems(2) Set_fusion_enabled by simp
  qed
qed

lemma relocalise_delay:
  "m_keyframeDelay (snd (snd (relocalise c s))) = 10
   \<or> m_keyframeDelay (snd (snd (relocalise c s)))
       = m_keyframeDelay s - (if trackerResult (trackingState s) = TRACKING_GOOD then 1 else 0)"
  by (auto simp add: relocalise_def decide_keyframe_def call_defs Let_def)

lemma run_body_delay:
  assumes "behaviourOnFailure c = FAILUREMODE_RELOCALISE"
  shows "m_keyframeDelay (snd (run_body c s)) = 10
   \<or> m_keyframeDelay (snd (run_body c s))
       = m_keyframeDelay s - (if trackerResult_raw (fst (run_body c s)) = TRACKING_GOOD then 1 else 0)"
  using relocalise_delay [of c "track_camera c (acquire_frame c s)"]
  by (simp add: run_body_members run_body_reloc(2) [OF assms] frame_fields(2)
      track_camera_members acquire_frame_members)

lemma delay_invariant:
  assumes mode: "behaviourOnFailure c = FAILUREMODE_RELOCALISE"
  shows "d \<le> m_keyframeDelay s \<Longrightarrow> d \<le> 10
    \<Longrightarrow> i < length (session_frames c rs s)
    \<Longrightarrow> reloc (session_frames c rs s ! i) = Some rl
    \<Longrightarrow> considerKeyframe rl
    \<Longrightarrow> d \<le> length (filter (\<lambda>f. trackerResult_raw f = TRACKING_GOOD)
              (take i (session_frames c rs s)))"
proof (induction rs arbitrary: s d i)
  case Nil
  then show ?case by simp
next
  case (Cons r rs)
  show ?case
  proof (cases r)
    case (Set_fusion_enabled b)
    have "m_keyframeDelay (set_fusion_enabled b s) = m_keyframeDelay s"
      by (simp add: set_fusion_enabled_def)
    then show ?thesis
      using Cons.IH [of d "set_fusion_enabled b s" i] Cons.prems Set_fusion_enabled by simp
  next
    case Run
    show ?thesis
    proof (cases "hasMoreImages c (world s)")
      case False
      then have "run c s = (False, s)" by (simp add: run_def)
      then show ?thesis
        using Cons.IH [of d s i] Cons.prems Run False by simp
    next
      case True
      let ?f = "fst (run_body c s)"
      let ?s' = "snd (run_body c s)"
      let ?g = "if trackerResult_raw ?f = TRACKING_GOOD then 1 else 0 :: nat"
      have fs: "session_frames c (r # rs) s = ?f # session_frames c rs ?s'"
        using Run True by (simp add: run_processes)
      show ?thesis
      proof (cases i)
        case 0
        then have "reloc ?f = Some rl" using Cons.prems(4) fs by simp
        then have "m_keyframeDelay s = 0"
          using considerKeyframe_eq [OF mode] Cons.prems(5) by blast
        then show ?thesis using Cons.prems(1) by simp
      next
        case (Suc j)
        have step: "d - ?g \<le> m_keyframeDelay ?s'"
          using run_body_delay [OF mode, of s] Cons.prems(1,2) by auto
        have "d - ?g \<le> length (filter (\<lambda>f. trackerResult_raw f = TRACKING_GOOD)
              (take j (session_frames c rs ?s')))"
          using Cons.IH [of "d - ?g" ?s' j] step Cons.prems(2,3,4,5) Suc fs by simp
        then show ?thesis using Suc fs by auto
      qed
    qed
  qed
qed

lemma recovery_keyframeDelay:
  assumes "behaviourOnFailure c = FAILUREMODE_RELOCALISE"
    and "reloc (fst (run_body c s)) = Some rl"
    and "trackerResult_raw (fst (run_body c s)) = TRACKING_FAILED"
    and "keyframeID rl < 0"
    and "nearestNeighbour rl \<noteq> - 1"
  shows "m_keyframeDelay (snd (run_body c s)) = 10"
proof -
  let ?s2 = "track_camera c (acquire_frame c s)"
  have rl: "fst (snd (relocalise c ?s2)) = rl"
    using assms(1,2) by (simp add: run_body_reloc)
  have raw: "trackerResult (trackingState ?s2) = TRACKING_FAILED"
    using assms(3) by (simp add: frame_fields)
  have "m_keyframeDelay (snd (snd (relocalise c ?s2))) = 10"
    by (subst relocalise_recovery(2) [of ?s2 c, unfolded rl, OF raw assms(4,5)]) simp
  then show ?thesis
    by (simp add: run_body_members run_body_reloc(2) [OF assms(1)])
qed

lemma run_body_world:
  "world (snd (run_body c s)) =
     (if runFusion (fst (run_body c s)) then
        Prepare c (DenseMapper_ProcessFrame c (world (state_at_gate c s))
                     (trackingState (state_at_gate c s)))
          (trackingState (state_at_gate c s))
      else if trackerResult_eff (fst (run_body c s)) \<noteq> TRACKING_FAILED then
        Prepare c (UpdateVisibleList c (world (state_at_gate c s))
                     (trackingState (state_at_gate c s)) None)
          (trackingState (state_at_gate c s))
      else
        Prepare c (world (state_at_gate c s))
          ((trackingState (state_at_gate c s))\<lparr>pose_d := pose_d (trackingState s)\<rparr>))"
  by (simp add: run_body_after_gate check_exhaustion_fields call_defs apply_outcome_def)

lemma acquire_frame_world:
  "world (acquire_frame c s) = UpdateView c (getImages c (world s))"
  by (simp add: acquire_frame_def)

lemma track_camera_state:
  "trackingState (track_camera c s) =
     (if 0 < m_fusedFramesCount s then fst (Track c (world s) (trackingState s))
      else trackingState s)"
  "world (track_camera c s) =
     (if 0 < m_fusedFramesCount s then snd (Track c (world s) (trackingState s))
      else world s)"
  by (simp_all add: track_camera_def call_defs)

lemma relocalise_recovery_state:
  assumes "trackerResult (trackingState s) = TRACKING_FAILED"
    and "keyframeID (fst (snd (relocalise c s))) < 0"
    and "nearestNeighbour (fst (snd (relocalise c s))) \<noteq> - 1"
  shows "trackingState (snd (snd (relocalise c s))) =
      fst (Track c
        (Prepare c
          (UpdateVisibleList c
            (snd (Relocaliser_ProcessFrame c (UpdateHostFromDevice c (world s)) False))
            ((trackingState s)\<lparr>pose_d := retrievePose c (m_poseDatabase s)
                (nearestNeighbour (fst (snd (relocalise c s))))\<rparr>)
            (Some True))
          ((trackingState s)\<lparr>pose_d := retrievePose c (m_poseDatabase s)
              (nearestNeighbour (fst (snd (relocalise c s))))\<rparr>))
        ((trackingState s)\<lparr>pose_d := retrievePose c (m_poseDatabase s)
            (nearestNeighbour (fst (snd (relocalise c s))))\<rparr>))"
    and "world (snd (snd (relocalise c s))) =
      snd (Track c
        (Prepare c
          (UpdateVisibleList c
            (snd (Relocaliser_ProcessFrame c (UpdateHostFromDevice c (world s)) False))
            ((trackingState s)\<lparr>pose_d := retrievePose c (m_poseDatabase s)
                (nearestNeighbour (fst (snd (relocalise c s))))\<rparr>)
            (Some True))
          ((trackingState s)\<lparr>pose_d := retrievePose c (m_poseDatabase s)
              (nearestNeighbour (fst (snd (relocalise c s))))\<rparr>))
        ((trackingState s)\<lparr>pose_d := retrievePose c (m_poseDatabase s)
            (nearestNeighbour (fst (snd (relocalise c s))))\<rparr>))"
  by (simp_all add: relocalise_recovery(2) [OF assms] call_defs)

lemma state_before_switch:
  "trackingState (track_camera c (acquire_frame c s)) =
     (if 0 < m_fusedFramesCount s
      then fst (Track c (UpdateView c (getImages c (world s))) (trackingState s))
      else trackingState s)"
  "world (track_camera c (acquire_frame c s)) =
     (if 0 < m_fusedFramesCount s
      then snd (Track c (UpdateView c (getImages c (world s))) (trackingState s))
      else UpdateView c (getImages c (world s)))"
  by (simp_all add: track_camera_state acquire_frame_world acquire_frame_members)

section \<open>The claims\<close>

subsection \<open>The fusion gate\<close>

text \<open>
  Claim C1. Whenever \<^verbatim>\<open>run\<close> processes a frame, the dense mapper's fusion is executed on
  that frame if and only if \<^verbatim>\<open>m_fusionEnabled\<close> is true, the tracking result after the
  failure-mode \<^verbatim>\<open>switch\<close> is not \<^verbatim>\<open>TRACKING_FAILED\<close>, it is not \<^verbatim>\<open>TRACKING_POOR\<close> or
  fewer than \<^verbatim>\<open>m_initialFramesToFuse\<close> frames have been fused, and the fallible tracker,
  when there is one, does not report lost tracking. Under these conditions the fusion is
  called and what the collaborators hold when \<^verbatim>\<open>run\<close> returns is the result of the dense
  mapper's \<^verbatim>\<open>ProcessFrame\<close>, followed by \<^verbatim>\<open>Prepare\<close>, on what they held after the
  \<^verbatim>\<open>switch\<close>; otherwise the fusion is not called and it is the result of
  \<^verbatim>\<open>UpdateVisibleList\<close> (or, after failed tracking, of nothing) followed by \<^verbatim>\<open>Prepare\<close>.
\<close>

theorem C1_fusion_gate:
  assumes "hasMoreImages c (world s)"
  shows "fst (run c s) \<and>
    ((Call_DenseMapper_ProcessFrame \<in> set (calls_since s (snd (run c s)))) \<longleftrightarrow>
       (m_fusionEnabled s
        \<and> trackerResult_eff (fst (run_body c s)) \<noteq> TRACKING_FAILED
        \<and> (trackerResult_eff (fst (run_body c s)) \<noteq> TRACKING_POOR
             \<or> m_fusedFramesCount s < m_initialFramesToFuse s)
        \<and> (\<forall>lost. lost_tracking c = Some lost \<longrightarrow> \<not> lost (world (state_at_gate c s)))))
    \<and> world (snd (run c s)) =
       (if m_fusionEnabled s
           \<and> trackerResult_eff (fst (run_body c s)) \<noteq> TRACKING_FAILED
           \<and> (trackerResult_eff (fst (run_body c s)) \<noteq> TRACKING_POOR
                \<or> m_fusedFramesCount s < m_initialFramesToFuse s)
           \<and> (\<forall>lost. lost_tracking c = Some lost \<longrightarrow> \<not> lost (world (state_at_gate c s)))
        then
          Prepare c (DenseMapper_ProcessFrame c (world (state_at_gate c s))
                       (trackingState (state_at_gate c s)))
            (trackingState (state_at_gate c s))
        else if trackerResult_eff (fst (run_body c s)) \<noteq> TRACKING_FAILED then
          Prepare c (UpdateVisibleList c (world (state_at_gate c s))
                       (trackingState (state_at_gate c s)) None)
            (trackingState (state_at_gate c s))
        else
          Prepare c (world (state_at_gate c s))
            ((trackingState (state_at_gate c s))\<lparr>pose_d := pose_d (trackingState s)\<rparr>))"
proof -
  have w: "world (snd (run c s)) = world (snd (run_body c s))"
    using assms by (simp add: run_processes)
  show ?thesis
    unfolding w run_body_world runFusion_eq [of c s, symmetric]
    using assms by (simp add: run_processes fuse_called)
qed

text \<open>
  An instance: the first frame of a session under the stop-integration mode is fused into
  the scene, at pose \<open>5\<close>.
\<close>

theorem C1_fusion_gate_witness:
  "hasMoreImages (scripted FAILUREMODE_STOP_INTEGRATION)
     (world (scripted_start [plain_frame TRACKING_GOOD]))
   \<and> Call_DenseMapper_ProcessFrame
       \<in> set (calls_since (scripted_start [plain_frame TRACKING_GOOD])
           (snd (run (scripted FAILUREMODE_STOP_INTEGRATION)
                  (scripted_start [plain_frame TRACKING_GOOD]))))
   \<and> world (snd (run (scripted FAILUREMODE_STOP_INTEGRATION)
                  (scripted_start [plain_frame TRACKING_GOOD])))
       = Prepare (scripted FAILUREMODE_STOP_INTEGRATION)
           (DenseMapper_ProcessFrame (scripted FAILUREMODE_STOP_INTEGRATION)
              (world (state_at_gate (scripted FAILUREMODE_STOP_INTEGRATION)
                 (scripted_start [plain_frame TRACKING_GOOD])))
              (trackingState (state_at_gate (scripted FAILUREMODE_STOP_INTEGRATION)
                 (scripted_start [plain_frame TRACKING_GOOD]))))
           (trackingState (state_at_gate (scripted FAILUREMODE_STOP_INTEGRATION)
              (scripted_start [plain_frame TRACKING_GOOD])))
   \<and> scene (world (snd (run (scripted FAILUREMODE_STOP_INTEGRATION)
                  (scripted_start [plain_frame TRACKING_GOOD])))) = [5]"
proof -
  have h: "hasMoreImages (scripted FAILUREMODE_STOP_INTEGRATION)
      (world (scripted_start [plain_frame TRACKING_GOOD]))"
    by code_simp
  have e: "m_fusionEnabled (scripted_start [plain_frame TRACKING_GOOD])
    \<and> trackerResult_eff (fst (run_body (scripted FAILUREMODE_STOP_INTEGRATION)
          (scripted_start [plain_frame TRACKING_GOOD]))) = TRACKING_GOOD
    \<and> \<not> sf_lost (current (world (state_at_gate (scripted FAILUREMODE_STOP_INTEGRATION)
          (scripted_start [plain_frame TRACKING_GOOD]))))"
    by code_simp
  have sc: "scene (world (snd (run (scripted FAILUREMODE_STOP_INTEGRATION)
                  (scripted_start [plain_frame TRACKING_GOOD])))) = [5]"
    by code_simp
  show ?thesis using h e sc C1_fusion_gate [OF h] by (simp add: scripted_def)
qed

subsection \<open>The counter of fused frames\<close>

text \<open>
  Claim C6. Over every sequence of calls \<^verbatim>\<open>m_fusedFramesCount\<close> never decreases. The
  fusion is called exactly when a frame is processed and the gate (\<^verbatim>\<open>runFusion\<close>) permits
  it. On such a call of \<^verbatim>\<open>run\<close> the counter goes up by exactly one and the collaborators
  hold the result of the dense mapper's \<^verbatim>\<open>ProcessFrame\<close> (followed by \<^verbatim>\<open>Prepare\<close>); on
  every other call the counter is unchanged and \<^verbatim>\<open>ProcessFrame\<close> has not been applied.
\<close>

theorem C6_fusedFramesCount:
  "m_fusedFramesCount s \<le> m_fusedFramesCount (session c rs s)
   \<and> ((Call_DenseMapper_ProcessFrame \<in> set (calls_since s (snd (run c s)))) \<longleftrightarrow>
        (hasMoreImages c (world s) \<and> runFusion (fst (run_body c s))))
   \<and> (if hasMoreImages c (world s) \<and> runFusion (fst (run_body c s)) then
         m_fusedFramesCount (snd (run c s)) = m_fusedFramesCount s + 1
         \<and> world (snd (run c s)) =
             Prepare c (DenseMapper_ProcessFrame c (world (state_at_gate c s))
                          (trackingState (state_at_gate c s)))
               (trackingState (state_at_gate c s))
       else
         m_fusedFramesCount (snd (run c s)) = m_fusedFramesCount s
         \<and> world (snd (run c s)) =
             (if \<not> hasMoreImages c (world s) then world s
              else if trackerResult_eff (fst (run_body c s)) \<noteq> TRACKING_FAILED then
                Prepare c (UpdateVisibleList c (world (state_at_gate c s))
                             (trackingState (state_at_gate c s)) None)
                  (trackingState (state_at_gate c s))
              else
                Prepare c (world (state_at_gate c s))
                  ((trackingState (state_at_gate c s))\<lparr>pose_d := pose_d (trackingState s)\<rparr>)))"
  by (simp add: session_count_mono run_def fuse_called count_step calls_since_self run_body_world)

text \<open>
  An instance: three frames under the relocalise mode, the last one with failed tracking;
  the first two are fused (at poses \<open>5\<close> and \<open>6\<close>), the third is not.
\<close>

theorem C6_fusedFramesCount_witness:
  "m_fusedFramesCount (scripted_start (map plain_frame [TRACKING_GOOD, TRACKING_GOOD, TRACKING_FAILED]))
     \<le> m_fusedFramesCount (session (scripted FAILUREMODE_RELOCALISE) [Run, Run, Run]
          (scripted_start (map plain_frame [TRACKING_GOOD, TRACKING_GOOD, TRACKING_FAILED])))
   \<and> m_fusedFramesCount (session (scripted FAILUREMODE_RELOCALISE) [Run, Run, Run]
          (scripted_start (map plain_frame [TRACKING_GOOD, TRACKING_GOOD, TRACKING_FAILED]))) = 2
   \<and> scene (world (session (scripted FAILUREMODE_RELOCALISE) [Run, Run, Run]
          (scripted_start (map plain_frame [TRACKING_GOOD, TRACKING_GOOD, TRACKING_FAILED]))))
       = [5, 6]"
proof -
  have e: "m_fusedFramesCount (session (scripted FAILUREMODE_RELOCALISE) [Run, Run, Run]
          (scripted_start (map plain_frame [TRACKING_GOOD, TRACKING_GOOD, TRACKING_FAILED]))) = 2
   \<and> scene (world (session (scripted FAILUREMODE_RELOCALISE) [Run, Run, Run]
          (scripted_start (map plain_frame [TRACKING_GOOD, TRACKING_GOOD, TRACKING_FAILED]))))
       = [5, 6]"
    by code_simp
  show ?thesis
    using e C6_fusedFramesCount [of
        "scripted_start (map plain_frame [TRACKING_GOOD, TRACKING_GOOD, TRACKING_FAILED])"
        "scripted FAILUREMODE_RELOCALISE" "[Run, Run, Run]"]
    by blast
qed

subsection \<open>No frame available\<close>

text \<open>
  Claim C8. When the image source has no more images, \<^verbatim>\<open>run\<close> returns \<^verbatim>\<open>false\<close> and
  leaves the whole component as it was: the counter of fused frames, the pose, the
  keyframe delay and the fusion flag in particular.
\<close>

theorem C8_no_frame:
  "\<not> hasMoreImages c (world s) \<Longrightarrow> run c s = (False, s)"
  by (simp add: run_def)

text \<open>An instance: a session whose frames have all been delivered.\<close>

theorem C8_no_frame_witness:
  "\<not> hasMoreImages (scripted FAILUREMODE_RELOCALISE) (world (scripted_start []))
   \<and> run (scripted FAILUREMODE_RELOCALISE) (scripted_start []) = (False, scripted_start [])"
proof -
  have h: "\<not> hasMoreImages (scripted FAILUREMODE_RELOCALISE) (world (scripted_start []))"
    by code_simp
  show ?thesis using h C8_no_frame [OF h] by simp
qed

subsection \<open>The pose after failed tracking\<close>

text \<open>
  Claim C2. When \<^verbatim>\<open>run\<close> processes a frame and the tracking result after the failure-mode
  \<^verbatim>\<open>switch\<close> is \<^verbatim>\<open>TRACKING_FAILED\<close>, fusion is not run and the pose when \<^verbatim>\<open>run\<close>
  returns is \<^verbatim>\<open>oldPose\<close>, the pose the tracking state held when the call began: whatever
  the tracker or a relocalisation did to the pose during the frame is discarded.
\<close>

theorem C2_rollback:
  assumes "hasMoreImages c (world s)"
    and "trackerResult_eff (fst (run_body c s)) = TRACKING_FAILED"
  shows "fst (run c s) \<and> \<not> runFusion (fst (run_body c s))
    \<and> oldPose (fst (run_body c s)) = pose_d (trackingState s)
    \<and> pose_d (trackingState (snd (run c s))) = oldPose (fst (run_body c s))"
  using assms by (simp add: run_processes run_body_trackingState frame_fields(1) runFusion_eq)

text \<open>
  An instance: tracking fails, the pose of keyframe \<open>2\<close> is substituted, tracking fails
  again, and the pose is \<open>5\<close> as before the call.
\<close>

theorem C2_rollback_witness:
  "hasMoreImages (scripted FAILUREMODE_RELOCALISE)
     (world (scripted_mid 80 [plain_frame TRACKING_FAILED]))
   \<and> trackerResult_eff (fst (run_body (scripted FAILUREMODE_RELOCALISE)
         (scripted_mid 80 [plain_frame TRACKING_FAILED]))) = TRACKING_FAILED
   \<and> Call_retrievePose 2 \<in> set (calls (snd (run (scripted FAILUREMODE_RELOCALISE)
         (scripted_mid 80 [plain_frame TRACKING_FAILED]))))
   \<and> pose_d (trackingState (snd (run (scripted FAILUREMODE_RELOCALISE)
         (scripted_mid 80 [plain_frame TRACKING_FAILED])))) = 5"
proof -
  have h1: "hasMoreImages (scripted FAILUREMODE_RELOCALISE)
      (world (scripted_mid 80 [plain_frame TRACKING_FAILED]))"
    by code_simp
  have h2: "trackerResult_eff (fst (run_body (scripted FAILUREMODE_RELOCALISE)
         (scripted_mid 80 [plain_frame TRACKING_FAILED]))) = TRACKING_FAILED"
    by code_simp
  have h3: "Call_retrievePose 2 \<in> set (calls (snd (run (scripted FAILUREMODE_RELOCALISE)
         (scripted_mid 80 [plain_frame TRACKING_FAILED]))))"
    by code_simp
  have "oldPose (fst (run_body (scripted FAILUREMODE_RELOCALISE)
         (scripted_mid 80 [plain_frame TRACKING_FAILED]))) = 5"
    using C2_rollback [OF h1 h2] by (simp add: scripted_mid_def)
  then show ?thesis using h1 h2 h3 C2_rollback [OF h1 h2] by simp
qed

subsection \<open>The first frame\<close>

text \<open>
  Claim C9. While \<^verbatim>\<open>m_fusedFramesCount\<close> is \<open>0\<close>, \<^verbatim>\<open>run\<close> skips the tracking step: the
  tracker is not called before the failure-mode \<^verbatim>\<open>switch\<close>, which reads the result the
  tracking state already held. Under \<^verbatim>\<open>FAILUREMODE_IGNORE\<close> the result is then
  \<^verbatim>\<open>TRACKING_GOOD\<close>, the tracker is not called at all and the tracking state is left as it
  was; and, when fusion is enabled and no lost tracking is reported, the frame is fused (the
  collaborators hold the result of the dense mapper's \<^verbatim>\<open>ProcessFrame\<close> on the new view
  and the unchanged tracking state, followed by \<^verbatim>\<open>Prepare\<close>) and the counter becomes \<open>1\<close>.
\<close>

theorem C9_first_frame:
  assumes "hasMoreImages c (world s)" and "m_fusedFramesCount s = 0"
  shows "fst (run c s)
    \<and> track_camera c (acquire_frame c s) = acquire_frame c s
    \<and> calls (track_camera c (acquire_frame c s)) = calls s @ [Call_getImages, Call_UpdateView]
    \<and> trackerResult_raw (fst (run_body c s)) = trackerResult (trackingState s)
    \<and> (behaviourOnFailure c = FAILUREMODE_IGNORE \<longrightarrow>
         trackerResult_eff (fst (run_body c s)) = TRACKING_GOOD
         \<and> Call_Track \<notin> set (calls_since s (snd (run c s)))
         \<and> trackingState (snd (run c s)) = trackingState s
         \<and> (m_fusionEnabled s
              \<and> (\<forall>lost. lost_tracking c = Some lost
                    \<longrightarrow> \<not> lost (UpdateView c (getImages c (world s))))
             \<longrightarrow> runFusion (fst (run_body c s))
                 \<and> calls_since s (snd (run c s))
                     = [Call_getImages, Call_UpdateView, Call_DenseMapper_ProcessFrame, Call_Prepare]
                 \<and> world (snd (run c s)) =
                     Prepare c
                       (DenseMapper_ProcessFrame c (UpdateView c (getImages c (world s)))
                          (trackingState s))
                       (trackingState s)
                 \<and> m_fusedFramesCount (snd (run c s)) = 1))"
proof -
  have skip: "track_camera c (acquire_frame c s) = acquire_frame c s"
    using assms(2) by (simp add: track_camera_skip acquire_frame_members)
  have raw: "trackerResult_raw (fst (run_body c s)) = trackerResult (trackingState s)"
    by (simp add: frame_fields skip acquire_frame_members)
  have ign: "trackerResult_eff (fst (run_body c s)) = TRACKING_GOOD
      \<and> Call_Track \<notin> set (calls_since s (snd (run c s)))
      \<and> trackingState (snd (run c s)) = trackingState s
      \<and> (m_fusionEnabled s
           \<and> (\<forall>lost. lost_tracking c = Some lost
                 \<longrightarrow> \<not> lost (UpdateView c (getImages c (world s))))
          \<longrightarrow> runFusion (fst (run_body c s))
              \<and> calls_since s (snd (run c s))
                  = [Call_getImages, Call_UpdateView, Call_DenseMapper_ProcessFrame, Call_Prepare]
              \<and> world (snd (run c s)) =
                  Prepare c
                    (DenseMapper_ProcessFrame c (UpdateView c (getImages c (world s)))
                       (trackingState s))
                    (trackingState s)
              \<and> m_fusedFramesCount (snd (run c s)) = 1)"
    if mode: "behaviourOnFailure c = FAILUREMODE_IGNORE"
  proof -
    have eff: "trackerResult_eff (fst (run_body c s)) = TRACKING_GOOD"
      by (simp add: frame_fields resolve_IGNORE [OF mode])
    have gate: "state_at_gate c s = acquire_frame c s"
      by (simp add: state_at_gate_def skip resolve_IGNORE [OF mode])
    have gw: "world (state_at_gate c s) = UpdateView c (getImages c (world s))"
      and gts: "trackingState (state_at_gate c s) = trackingState s"
      by (simp_all add: gate acquire_frame_world acquire_frame_members)
    have log: "calls (snd (run_body c s)) = calls s @ [Call_getImages, Call_UpdateView]
        @ (if runFusion (fst (run_body c s)) then [Call_DenseMapper_ProcessFrame]
           else [Call_UpdateVisibleList None]) @ [Call_Prepare]"
      using eff
      by (simp add: run_body_after_gate gate check_exhaustion_fields call_Prepare_def
          apply_outcome_calls acquire_frame_calls)
    have ts: "trackingState (snd (run c s)) = trackingState s"
      using assms(1) eff by (simp add: run_processes run_body_trackingState gts)
    have fuse: "runFusion (fst (run_body c s))"
      if "m_fusionEnabled s"
        "\<forall>lost. lost_tracking c = Some lost \<longrightarrow> \<not> lost (UpdateView c (getImages c (world s)))"
      using that eff runFusion_eq [of c s] by (simp add: gw)
    have w: "world (snd (run c s)) =
        Prepare c
          (DenseMapper_ProcessFrame c (UpdateView c (getImages c (world s))) (trackingState s))
          (trackingState s)"
      if "runFusion (fst (run_body c s))"
      using that assms(1) by (simp add: run_processes run_body_world gw gts)
    have rest: "Call_Track \<notin> set (calls_since s (snd (run c s)))"
      "runFusion (fst (run_body c s)) \<Longrightarrow> calls_since s (snd (run c s))
         = [Call_getImages, Call_UpdateView, Call_DenseMapper_ProcessFrame, Call_Prepare]"
      "runFusion (fst (run_body c s)) \<Longrightarrow> m_fusedFramesCount (snd (run c s)) = 1"
      using assms by (auto simp add: run_processes calls_since_append [OF log] count_step)
    show ?thesis
      using eff ts fuse w rest by blast
  qed
  show ?thesis
    using assms(1) skip raw ign by (auto simp add: run_processes acquire_frame_calls)
qed

text \<open>
  An instance: the first frame under \<^verbatim>\<open>FAILUREMODE_IGNORE\<close>, on which the tracker would
  have reported a failure; it is fused into the scene at pose \<open>5\<close>.
\<close>

theorem C9_first_frame_witness:
  "hasMoreImages (scripted FAILUREMODE_IGNORE) (world (scripted_start [plain_frame TRACKING_FAILED]))
   \<and> m_fusedFramesCount (scripted_start [plain_frame TRACKING_FAILED]) = 0
   \<and> calls_since (scripted_start [plain_frame TRACKING_FAILED])
        (snd (run (scripted FAILUREMODE_IGNORE) (scripted_start [plain_frame TRACKING_FAILED])))
       = [Call_getImages, Call_UpdateView, Call_DenseMapper_ProcessFrame, Call_Prepare]
   \<and> scene (world
        (snd (run (scripted FAILUREMODE_IGNORE) (scripted_start [plain_frame TRACKING_FAILED]))))
       = [5]
   \<and> m_fusedFramesCount
        (snd (run (scripted FAILUREMODE_IGNORE) (scripted_start [plain_frame TRACKING_FAILED]))) = 1"
proof -
  have h1: "hasMoreImages (scripted FAILUREMODE_IGNORE)
      (world (scripted_start [plain_frame TRACKING_FAILED]))"
    by code_simp
  have h2: "m_fusedFramesCount (scripted_start [plain_frame TRACKING_FAILED]) = 0"
    by code_simp
  have e: "behaviourOnFailure (scripted FAILUREMODE_IGNORE) = FAILUREMODE_IGNORE
    \<and> m_fusionEnabled (scripted_start [plain_frame TRACKING_FAILED])
    \<and> \<not> sf_lost (current (UpdateView (scripted FAILUREMODE_IGNORE)
          (getImages (scripted FAILUREMODE_IGNORE)
             (world (scripted_start [plain_frame TRACKING_FAILED])))))"
    by code_simp
  have sc: "scene (world
        (snd (run (scripted FAILUREMODE_IGNORE) (scripted_start [plain_frame TRACKING_FAILED]))))
       = [5]"
    by code_simp
  have l: "lost_tracking (scripted FAILUREMODE_IGNORE) = Some (\<lambda>w. sf_lost (current w))"
    by (simp add: scripted_def)
  show ?thesis using h1 h2 e sc C9_first_frame [OF h1 h2] by (simp add: l)
qed

subsection \<open>The frame on which the sub-engine runs out\<close>



subsection \<open>Recovery by relocalisation\<close>

text \<open>
  Claim C3. Under \<^verbatim>\<open>FAILUREMODE_RELOCALISE\<close>, on a frame whose tracking result (line 119)
  is \<^verbatim>\<open>TRACKING_FAILED\<close>, for which the relocaliser returned no new keyframe id but did
  return a nearest neighbour, \<^verbatim>\<open>run\<close> in this order: sets the pose to the pose the pose
  database holds for the neighbour (\<open>ts3\<close> below), applies \<^verbatim>\<open>UpdateVisibleList\<close> with the
  reset flag set (\<open>w4\<close>), then \<^verbatim>\<open>Prepare\<close> (\<open>w5\<close>), then \<^verbatim>\<open>Track\<close>, each on the tracking
  state with the substituted pose; what \<^verbatim>\<open>Track\<close> returns is the tracking state and the
  collaborators' state after the \<^verbatim>\<open>switch\<close>, its result is the result of the frame, and
  \<^verbatim>\<open>m_keyframeDelay\<close> is \<open>10\<close>. \<open>w1\<close>, \<open>ts2\<close> and \<open>w2\<close> are the view, the tracking state and
  the collaborators' state before the \<^verbatim>\<open>switch\<close>.
\<close>

theorem C3_relocalisation_recovery:
  assumes "behaviourOnFailure c = FAILUREMODE_RELOCALISE"
    and "hasMoreImages c (world s)"
    and "reloc (fst (run_body c s)) = Some rl"
    and "trackerResult_raw (fst (run_body c s)) = TRACKING_FAILED"
    and "keyframeID rl < 0"
    and "nearestNeighbour rl \<noteq> - 1"
  shows
    "let w1 = UpdateView c (getImages c (world s));
         ts2 = (if 0 < m_fusedFramesCount s then fst (Track c w1 (trackingState s))
                else trackingState s);
         w2 = (if 0 < m_fusedFramesCount s then snd (Track c w1 (trackingState s)) else w1);
         w3 = snd (Relocaliser_ProcessFrame c (UpdateHostFromDevice c w2) False);
         ts3 = ts2\<lparr>pose_d := retrievePose c (m_poseDatabase s) (nearestNeighbour rl)\<rparr>;
         w4 = UpdateVisibleList c w3 ts3 (Some True);
         w5 = Prepare c w4 ts3
     in fst (run c s)
        \<and> \<not> considerKeyframe rl
        \<and> trackingState (state_at_gate c s) = fst (Track c w5 ts3)
        \<and> world (state_at_gate c s) = snd (Track c w5 ts3)
        \<and> trackerResult_eff (fst (run_body c s)) = trackerResult (fst (Track c w5 ts3))
        \<and> m_keyframeDelay (state_at_gate c s) = 10
        \<and> m_keyframeDelay (snd (run c s)) = 10
        \<and> (\<exists>pre post. calls_since s (snd (run c s)) =
              pre @ [Call_Relocaliser_ProcessFrame False, Call_retrievePose (nearestNeighbour rl),
                     Call_UpdateVisibleList (Some True), Call_Prepare, Call_Track] @ post)"
proof -
  let ?s2 = "track_camera c (acquire_frame c s)"
  have rl: "fst (snd (relocalise c ?s2)) = rl"
    using assms(1,3) by (simp add: frame_fields resolve_RELOCALISE)
  have raw: "trackerResult (trackingState ?s2) = TRACKING_FAILED"
    using assms(4) by (simp add: frame_fields)
  have gate: "state_at_gate c s = snd (snd (relocalise c ?s2))"
    using assms(1) by (simp add: state_at_gate_def resolve_RELOCALISE)
  have eff: "trackerResult_eff (fst (run_body c s)) = fst (relocalise c ?s2)"
    using assms(1) by (simp add: frame_fields resolve_RELOCALISE)
  note rec = relocalise_recovery [of ?s2 c, unfolded rl, OF raw assms(5,6)]
  note recst = relocalise_recovery_state [of ?s2 c, unfolded rl, OF raw assms(5,6)]
  have db: "m_poseDatabase ?s2 = m_poseDatabase s"
    by (simp add: track_camera_members acquire_frame_members)
  have ck: "\<not> considerKeyframe rl"
    using raw relocalise_locals [of c ?s2] by (simp add: rl [symmetric])
  have gdelay: "m_keyframeDelay (state_at_gate c s) = 10"
    unfolding gate by (subst rec(2)) simp
  have delay: "m_keyframeDelay (snd (run c s)) = 10"
    using assms(2) by (simp add: run_processes run_body_members gdelay)
  have glog: "calls (state_at_gate c s) = calls s @ ([Call_getImages, Call_UpdateView]
      @ (if 0 < m_fusedFramesCount s then [Call_Track] else []) @ [Call_UpdateHostFromDevice])
      @ [Call_Relocaliser_ProcessFrame False, Call_retrievePose (nearestNeighbour rl),
         Call_UpdateVisibleList (Some True), Call_Prepare, Call_Track]"
    unfolding gate
    by (subst rec(2))
      (simp add: call_defs track_camera_calls acquire_frame_calls acquire_frame_members)
  have "\<exists>post. calls (snd (run_body c s)) = calls (state_at_gate c s) @ post"
    by (simp add: run_body_after_gate check_exhaustion_fields call_Prepare_def apply_outcome_calls)
  then obtain post where "calls (snd (run_body c s)) = calls (state_at_gate c s) @ post" ..
  then have "calls (snd (run_body c s)) = calls s @ (([Call_getImages, Call_UpdateView]
      @ (if 0 < m_fusedFramesCount s then [Call_Track] else []) @ [Call_UpdateHostFromDevice])
      @ [Call_Relocaliser_ProcessFrame False, Call_retrievePose (nearestNeighbour rl),
         Call_UpdateVisibleList (Some True), Call_Prepare, Call_Track] @ post)"
    by (simp add: glog)
  then have "calls_since s (snd (run c s)) = ([Call_getImages, Call_UpdateView]
      @ (if 0 < m_fusedFramesCount s then [Call_Track] else []) @ [Call_UpdateHostFromDevice])
      @ [Call_Relocaliser_ProcessFrame False, Call_retrievePose (nearestNeighbour rl),
         Call_UpdateVisibleList (Some True), Call_Prepare, Call_Track] @ post"
    using assms(2) by (simp only: run_processes snd_conv calls_since_append)
  then have log: "\<exists>pre post. calls_since s (snd (run c s)) =
          pre @ [Call_Relocaliser_ProcessFrame False, Call_retrievePose (nearestNeighbour rl),
                 Call_UpdateVisibleList (Some True), Call_Prepare, Call_Track] @ post"
    by blast
  have effg: "trackerResult_eff (fst (run_body c s)) = trackerResult (trackingState (state_at_gate c s))"
    using rec(1) by (simp add: eff gate)
  have r: "fst (run c s)"
    using assms(2) by (simp add: run_processes)
  show ?thesis
    unfolding Let_def effg
    unfolding gate recst db state_before_switch
    using r ck gdelay [unfolded gate] delay log by (simp only: simp_thms)
qed

text \<open>
  An instance: tracking fails on a frame, the nearest keyframe is \<open>2\<close> with stored pose
  \<open>102\<close>; the visible list is reset, the preparation is made from pose \<open>102\<close>, and tracking
  from there succeeds and moves the pose to \<open>103\<close>.
\<close>

theorem C3_relocalisation_recovery_witness:
  "behaviourOnFailure (scripted FAILUREMODE_RELOCALISE) = FAILUREMODE_RELOCALISE
   \<and> hasMoreImages (scripted FAILUREMODE_RELOCALISE)
        (world (scripted_mid 80 [(plain_frame TRACKING_FAILED)\<lparr>sf_retrack := TRACKING_GOOD\<rparr>]))
   \<and> reloc (fst (run_body (scripted FAILUREMODE_RELOCALISE)
        (scripted_mid 80 [(plain_frame TRACKING_FAILED)\<lparr>sf_retrack := TRACKING_GOOD\<rparr>])))
       = Some \<lparr>considerKeyframe = False, keyframeID = - 1, nearestNeighbour = 2\<rparr>
   \<and> trackerResult_raw (fst (run_body (scripted FAILUREMODE_RELOCALISE)
        (scripted_mid 80 [(plain_frame TRACKING_FAILED)\<lparr>sf_retrack := TRACKING_GOOD\<rparr>])))
       = TRACKING_FAILED
   \<and> trackerResult_eff (fst (run_body (scripted FAILUREMODE_RELOCALISE)
        (scripted_mid 80 [(plain_frame TRACKING_FAILED)\<lparr>sf_retrack := TRACKING_GOOD\<rparr>])))
       = TRACKING_GOOD
   \<and> trackingState (state_at_gate (scripted FAILUREMODE_RELOCALISE)
        (scripted_mid 80 [(plain_frame TRACKING_FAILED)\<lparr>sf_retrack := TRACKING_GOOD\<rparr>]))
       = \<lparr>pose_d = 103, trackerResult = TRACKING_GOOD\<rparr>
   \<and> visible (world (state_at_gate (scripted FAILUREMODE_RELOCALISE)
        (scripted_mid 80 [(plain_frame TRACKING_FAILED)\<lparr>sf_retrack := TRACKING_GOOD\<rparr>])))
       = [Some True]
   \<and> rendered (world (state_at_gate (scripted FAILUREMODE_RELOCALISE)
        (scripted_mid 80 [(plain_frame TRACKING_FAILED)\<lparr>sf_retrack := TRACKING_GOOD\<rparr>])))
       = [102]
   \<and> pose_d (trackingState (snd (run (scripted FAILUREMODE_RELOCALISE)
        (scripted_mid 80 [(plain_frame TRACKING_FAILED)\<lparr>sf_retrack := TRACKING_GOOD\<rparr>]))))
       = 103
   \<and> m_keyframeDelay (snd (run (scripted FAILUREMODE_RELOCALISE)
        (scripted_mid 80 [(plain_frame TRACKING_FAILED)\<lparr>sf_retrack := TRACKING_GOOD\<rparr>])))
       = 10"
proof -
  have h1: "behaviourOnFailure (scripted FAILUREMODE_RELOCALISE) = FAILUREMODE_RELOCALISE"
    by code_simp
  have h2: "hasMoreImages (scripted FAILUREMODE_RELOCALISE)
        (world (scripted_mid 80 [(plain_frame TRACKING_FAILED)\<lparr>sf_retrack := TRACKING_GOOD\<rparr>]))"
    by code_simp
  have h3: "reloc (fst (run_body (scripted FAILUREMODE_RELOCALISE)
        (scripted_mid 80 [(plain_frame TRACKING_FAILED)\<lparr>sf_retrack := TRACKING_GOOD\<rparr>])))
       = Some \<lparr>considerKeyframe = False, keyframeID = - 1, nearestNeighbour = 2\<rparr>"
    by code_simp
  have h4: "trackerResult_raw (fst (run_body (scripted FAILUREMODE_RELOCALISE)
        (scripted_mid 80 [(plain_frame TRACKING_FAILED)\<lparr>sf_retrack := TRACKING_GOOD\<rparr>])))
       = TRACKING_FAILED"
    by code_simp
  have h5: "keyframeID \<lparr>considerKeyframe = False, keyframeID = - 1, nearestNeighbour = 2\<rparr> < 0"
    by simp
  have h6: "nearestNeighbour \<lparr>considerKeyframe = False, keyframeID = - 1, nearestNeighbour = 2\<rparr>
      \<noteq> - 1"
    by simp
  have e: "trackerResult_eff (fst (run_body (scripted FAILUREMODE_RELOCALISE)
        (scripted_mid 80 [(plain_frame TRACKING_FAILED)\<lparr>sf_retrack := TRACKING_GOOD\<rparr>])))
       = TRACKING_GOOD
    \<and> trackingState (state_at_gate (scripted FAILUREMODE_RELOCALISE)
        (scripted_mid 80 [(plain_frame TRACKING_FAILED)\<lparr>sf_retrack := TRACKING_GOOD\<rparr>]))
       = \<lparr>pose_d = 103, trackerResult = TRACKING_GOOD\<rparr>
    \<and> visible (world (state_at_gate (scripted FAILUREMODE_RELOCALISE)
        (scripted_mid 80 [(plain_frame TRACKING_FAILED)\<lparr>sf_retrack := TRACKING_GOOD\<rparr>])))
       = [Some True]
    \<and> rendered (world (state_at_gate (scripted FAILUREMODE_RELOCALISE)
        (scripted_mid 80 [(plain_frame TRACKING_FAILED)\<lparr>sf_retrack := TRACKING_GOOD\<rparr>])))
       = [102]
    \<and> pose_d (trackingState (snd (run (scripted FAILUREMODE_RELOCALISE)
        (scripted_mid 80 [(plain_frame TRACKING_FAILED)\<lparr>sf_retrack := TRACKING_GOOD\<rparr>]))))
       = 103"
    by code_simp
  have "m_keyframeDelay (snd (run (scripted FAILUREMODE_RELOCALISE)
        (scripted_mid 80 [(plain_frame TRACKING_FAILED)\<lparr>sf_retrack := TRACKING_GOOD\<rparr>])))
       = 10"
    using C3_relocalisation_recovery [OF h1 h2 h3 h4 h5 h6] by (simp add: Let_def)
  then show ?thesis using h1 h2 h3 h4 e by blast
qed

subsection \<open>Keyframes and their poses\<close>

text \<open>
  Claim C7. Under \<^verbatim>\<open>FAILUREMODE_RELOCALISE\<close> every frame is passed to the relocaliser, with
  \<^verbatim>\<open>considerKeyframe\<close> true exactly when the tracking result is \<^verbatim>\<open>TRACKING_GOOD\<close> and
  \<^verbatim>\<open>m_keyframeDelay\<close> is \<open>0\<close>. When a new keyframe id is returned, \<^verbatim>\<open>storePose\<close> is called
  with that id and the current pose (the pose after the tracking step), and nothing changes
  the pose database afterwards; when none is returned the database is unchanged. For a
  relocaliser that returns no new keyframe id unless it is asked to consider the frame, a
  new keyframe id is returned only on a frame whose result, also after the \<^verbatim>\<open>switch\<close>, is
  \<^verbatim>\<open>TRACKING_GOOD\<close>, and the pose stored is the pose the tracking state holds when \<^verbatim>\<open>run\<close>
  returns; so for a pose database that returns what was stored under an id that is not
  negative, the database holds that pose under the new id when \<^verbatim>\<open>run\<close> returns.
\<close>

theorem C7_keyframes:
  assumes "behaviourOnFailure c = FAILUREMODE_RELOCALISE"
    and "hasMoreImages c (world s)"
  shows "\<exists>rl. reloc (fst (run_body c s)) = Some rl
    \<and> (considerKeyframe rl \<longleftrightarrow>
         trackerResult_raw (fst (run_body c s)) = TRACKING_GOOD \<and> m_keyframeDelay s = 0)
    \<and> (0 \<le> keyframeID rl \<longrightarrow>
         Call_storePose (keyframeID rl) \<in> set (calls_since s (snd (run c s)))
         \<and> m_poseDatabase (snd (run c s)) =
             storePose c (m_poseDatabase s) (keyframeID rl)
               (pose_d (if 0 < m_fusedFramesCount s
                        then fst (Track c (UpdateView c (getImages c (world s))) (trackingState s))
                        else trackingState s)))
    \<and> (keyframeID rl < 0 \<longrightarrow> m_poseDatabase (snd (run c s)) = m_poseDatabase s)
    \<and> ((\<forall>w. fst (fst (Relocaliser_ProcessFrame c w False)) < 0) \<and> 0 \<le> keyframeID rl \<longrightarrow>
         considerKeyframe rl
         \<and> trackerResult_eff (fst (run_body c s)) = TRACKING_GOOD
         \<and> m_poseDatabase (snd (run c s)) =
             storePose c (m_poseDatabase s) (keyframeID rl) (pose_d (trackingState (snd (run c s))))
         \<and> ((\<forall>d i p. 0 \<le> i \<longrightarrow> retrievePose c (storePose c d i p) i = p) \<longrightarrow>
              retrievePose c (m_poseDatabase (snd (run c s))) (keyframeID rl)
                = pose_d (trackingState (snd (run c s)))))"
proof -
  let ?s2 = "track_camera c (acquire_frame c s)"
  let ?rl = "fst (snd (relocalise c ?s2))"
  note rb = run_body_reloc [OF assms(1), of s]
  have ck: "considerKeyframe ?rl \<longleftrightarrow>
      trackerResult_raw (fst (run_body c s)) = TRACKING_GOOD \<and> m_keyframeDelay s = 0"
    using considerKeyframe_eq [OF assms(1) rb(1)] .
  have none: "m_poseDatabase (snd (run c s)) = m_poseDatabase s" if "keyframeID ?rl < 0"
    using assms(2) relocalise_no_store [OF that]
    by (simp add: run_processes run_body_members rb(2) track_camera_members acquire_frame_members)
  have stored: "Call_storePose (keyframeID ?rl) \<in> set (calls_since s (snd (run c s)))
         \<and> m_poseDatabase (snd (run c s)) =
             storePose c (m_poseDatabase s) (keyframeID ?rl)
               (pose_d (if 0 < m_fusedFramesCount s
                        then fst (Track c (UpdateView c (getImages c (world s))) (trackingState s))
                        else trackingState s))"
    if kid: "0 \<le> keyframeID ?rl"
  proof -
    note st = relocalise_store [OF kid]
    have db: "m_poseDatabase (snd (run c s)) =
        storePose c (m_poseDatabase s) (keyframeID ?rl) (pose_d (trackingState ?s2))"
      using assms(2)
      by (simp add: run_processes run_body_members rb(2) st(3) track_camera_members
          acquire_frame_members)
    obtain xs where xs: "calls (state_at_gate c s) = calls ?s2 @ xs @ [Call_storePose (keyframeID ?rl)]"
      using st(4) rb(2) by auto
    have "\<exists>post. calls (snd (run_body c s)) = calls (state_at_gate c s) @ post"
      by (simp add: run_body_after_gate check_exhaustion_fields call_Prepare_def apply_outcome_calls)
    then obtain post where "calls (snd (run_body c s)) = calls (state_at_gate c s) @ post" ..
    then have "calls (snd (run_body c s)) = calls s @ ([Call_getImages, Call_UpdateView]
        @ (if 0 < m_fusedFramesCount s then [Call_Track] else []) @ xs
        @ [Call_storePose (keyframeID ?rl)] @ post)"
      by (simp add: xs track_camera_calls acquire_frame_calls acquire_frame_members)
    then have "calls_since s (snd (run c s)) = [Call_getImages, Call_UpdateView]
        @ (if 0 < m_fusedFramesCount s then [Call_Track] else []) @ xs
        @ [Call_storePose (keyframeID ?rl)] @ post"
      using assms(2) by (simp only: run_processes snd_conv calls_since_append)
    then have "Call_storePose (keyframeID ?rl) \<in> set (calls_since s (snd (run c s)))"
      by simp
    with db show ?thesis by (simp only: state_before_switch(1) simp_thms)
  qed
  have new: "considerKeyframe ?rl
         \<and> trackerResult_eff (fst (run_body c s)) = TRACKING_GOOD
         \<and> m_poseDatabase (snd (run c s)) =
             storePose c (m_poseDatabase s) (keyframeID ?rl) (pose_d (trackingState (snd (run c s))))
         \<and> ((\<forall>d i p. 0 \<le> i \<longrightarrow> retrievePose c (storePose c d i p) i = p) \<longrightarrow>
              retrievePose c (m_poseDatabase (snd (run c s))) (keyframeID ?rl)
                = pose_d (trackingState (snd (run c s))))"
    if contract: "\<forall>w. fst (fst (Relocaliser_ProcessFrame c w False)) < 0"
      and kid: "0 \<le> keyframeID ?rl"
  proof -
    note st = relocalise_store [OF kid]
    define b where
      "b \<longleftrightarrow> trackerResult (trackingState ?s2) = TRACKING_GOOD \<and> m_keyframeDelay ?s2 = 0"
    have loc: "?rl = \<lparr>considerKeyframe = b,
        keyframeID = fst (fst (Relocaliser_ProcessFrame c (UpdateHostFromDevice c (world ?s2)) b)),
        nearestNeighbour =
          snd (fst (Relocaliser_ProcessFrame c (UpdateHostFromDevice c (world ?s2)) b))\<rparr>"
      unfolding b_def by (rule relocalise_locals)
    have c1: "considerKeyframe ?rl"
    proof (cases b)
      case True
      then show ?thesis by (simp add: loc)
    next
      case False
      then have "keyframeID ?rl < 0"
        using contract by (simp add: loc)
      with kid show ?thesis by simp
    qed
    then have raw: "trackerResult_raw (fst (run_body c s)) = TRACKING_GOOD"
      using ck by simp
    have eff: "trackerResult_eff (fst (run_body c s)) = TRACKING_GOOD"
      unfolding rb(3) st(1) using raw by (simp add: frame_fields(2))
    have ts: "trackingState (snd (run_body c s)) = trackingState ?s2"
      using eff by (simp add: run_body_trackingState rb(2) st(2))
    have db: "m_poseDatabase (snd (run c s)) =
        storePose c (m_poseDatabase s) (keyframeID ?rl) (pose_d (trackingState (snd (run c s))))"
      using assms(2)
      by (simp add: run_processes ts run_body_members rb(2) st(3) track_camera_members
          acquire_frame_members)
    have law: "retrievePose c (m_poseDatabase (snd (run c s))) (keyframeID ?rl)
             = pose_d (trackingState (snd (run c s)))"
      if "\<forall>d i p. 0 \<le> i \<longrightarrow> retrievePose c (storePose c d i p) i = p"
      using that kid by (subst db) simp
    from c1 eff db law show ?thesis by blast
  qed
  show ?thesis
    using rb(1) ck stored none new by blast
qed

text \<open>
  An instance: the first frame of a session becomes keyframe \<open>0\<close>, stored with pose \<open>5\<close>.
  The scripted relocaliser keeps its contract, and the scripted pose database, which
  ignores negative ids, returns what was stored under every other id.
\<close>

theorem C7_keyframes_witness:
  "behaviourOnFailure (scripted FAILUREMODE_RELOCALISE) = FAILUREMODE_RELOCALISE
   \<and> hasMoreImages (scripted FAILUREMODE_RELOCALISE)
        (world (scripted_start [plain_frame TRACKING_GOOD]))
   \<and> (\<forall>w. fst (fst (Relocaliser_ProcessFrame (scripted FAILUREMODE_RELOCALISE) w False)) < 0)
   \<and> reloc (fst (run_body (scripted FAILUREMODE_RELOCALISE)
         (scripted_start [plain_frame TRACKING_GOOD])))
       = Some \<lparr>considerKeyframe = True, keyframeID = 0, nearestNeighbour = - 1\<rparr>
   \<and> pose_d (trackingState (snd (run (scripted FAILUREMODE_RELOCALISE)
         (scripted_start [plain_frame TRACKING_GOOD])))) = 5
   \<and> retrievePose (scripted FAILUREMODE_RELOCALISE)
        (m_poseDatabase (snd (run (scripted FAILUREMODE_RELOCALISE)
           (scripted_start [plain_frame TRACKING_GOOD])))) 0 = 5"
proof -
  have h1: "behaviourOnFailure (scripted FAILUREMODE_RELOCALISE) = FAILUREMODE_RELOCALISE"
    by code_simp
  have h2: "hasMoreImages (scripted FAILUREMODE_RELOCALISE)
      (world (scripted_start [plain_frame TRACKING_GOOD]))"
    by code_simp
  have h3: "\<forall>w. fst (fst (Relocaliser_ProcessFrame (scripted FAILUREMODE_RELOCALISE) w False)) < 0"
    by (simp add: scripted_def scripted_ProcessFrame_def)
  have h4: "\<forall>d i p. 0 \<le> i \<longrightarrow> retrievePose (scripted FAILUREMODE_RELOCALISE)
          (storePose (scripted FAILUREMODE_RELOCALISE) d i p) i = p"
    by (simp add: scripted_def)
  have e1: "reloc (fst (run_body (scripted FAILUREMODE_RELOCALISE)
         (scripted_start [plain_frame TRACKING_GOOD])))
       = Some \<lparr>considerKeyframe = True, keyframeID = 0, nearestNeighbour = - 1\<rparr>"
    by code_simp
  have e2: "pose_d (trackingState (snd (run (scripted FAILUREMODE_RELOCALISE)
         (scripted_start [plain_frame TRACKING_GOOD])))) = 5"
    by code_simp
  have "retrievePose (scripted FAILUREMODE_RELOCALISE)
        (m_poseDatabase (snd (run (scripted FAILUREMODE_RELOCALISE)
           (scripted_start [plain_frame TRACKING_GOOD])))) 0 = 5"
    using C7_keyframes [OF h1 h2] h3 h4 e1 e2 by auto
  then show ?thesis using h1 h2 h3 e1 e2 by blast
qed

subsection \<open>The keyframe delay after a relocalisation\<close>

text \<open>
  Claim C4, as stated: after a frame on which the recovery by relocalisation is triggered,
  \<^verbatim>\<open>considerKeyframe\<close> is not true again until ten consecutive frames with result
  \<^verbatim>\<open>TRACKING_GOOD\<close> have passed. This fails: \<^verbatim>\<open>m_keyframeDelay\<close> is decremented on every
  frame with good tracking and is not set back by a frame without. In the session below the
  recovery (frame \<open>0\<close>) is followed by five good frames, a poor one and five good ones, and
  on the next frame \<^verbatim>\<open>considerKeyframe\<close> is true.
\<close>

theorem C4_keyframe_delay_counterexample:
  "reloc (session_frames (scripted FAILUREMODE_RELOCALISE) (replicate 13 Run)
       (scripted_mid 80 interrupted_frames) ! 0)
     = Some \<lparr>considerKeyframe = False, keyframeID = - 1, nearestNeighbour = 2\<rparr>
   \<and> map trackerResult_raw (session_frames (scripted FAILUREMODE_RELOCALISE) (replicate 13 Run)
       (scripted_mid 80 interrupted_frames))
     = [TRACKING_FAILED,
        TRACKING_GOOD, TRACKING_GOOD, TRACKING_GOOD, TRACKING_GOOD, TRACKING_GOOD,
        TRACKING_POOR,
        TRACKING_GOOD, TRACKING_GOOD, TRACKING_GOOD, TRACKING_GOOD, TRACKING_GOOD,
        TRACKING_GOOD]
   \<and> map (map_option considerKeyframe \<circ> reloc)
       (session_frames (scripted FAILUREMODE_RELOCALISE) (replicate 13 Run)
         (scripted_mid 80 interrupted_frames))
     = [Some False,
        Some False, Some False, Some False, Some False, Some False,
        Some False,
        Some False, Some False, Some False, Some False, Some False,
        Some True]"
  by code_simp

text \<open>
  Claim C4, amended. Under \<^verbatim>\<open>FAILUREMODE_RELOCALISE\<close>, after a frame on which the recovery
  is triggered \<^verbatim>\<open>m_keyframeDelay\<close> is \<open>10\<close>, and in every continuation of the session
  \<^verbatim>\<open>considerKeyframe\<close> is true only on a frame before which at least ten frames with
  tracking result \<^verbatim>\<open>TRACKING_GOOD\<close>, consecutive or not, have been processed since the
  recovery.
\<close>

theorem C4_keyframe_delay_amended:
  assumes "behaviourOnFailure c = FAILUREMODE_RELOCALISE"
    and "hasMoreImages c (world s)"
    and "reloc (fst (run_body c s)) = Some rl"
    and "trackerResult_raw (fst (run_body c s)) = TRACKING_FAILED"
    and "keyframeID rl < 0"
    and "nearestNeighbour rl \<noteq> - 1"
  shows "m_keyframeDelay (snd (run c s)) = 10
    \<and> (\<forall>rs i rl'. i < length (session_frames c rs (snd (run c s)))
          \<and> reloc (session_frames c rs (snd (run c s)) ! i) = Some rl'
          \<and> considerKeyframe rl'
        \<longrightarrow> 10 \<le> length (filter (\<lambda>f. trackerResult_raw f = TRACKING_GOOD)
                    (take i (session_frames c rs (snd (run c s))))))"
proof -
  have d: "m_keyframeDelay (snd (run c s)) = 10"
    using assms(2) recovery_keyframeDelay [OF assms(1,3,4,5,6)] by (simp add: run_processes)
  then have "10 \<le> m_keyframeDelay (snd (run c s))" by simp
  then show ?thesis
    using d delay_invariant [OF assms(1), of 10 "snd (run c s)"] by blast
qed

text \<open>
  An instance: the session of the counterexample; before the frame on which
  \<^verbatim>\<open>considerKeyframe\<close> is true, ten of the eleven frames since the recovery were good.
\<close>

theorem C4_keyframe_delay_amended_witness:
  "behaviourOnFailure (scripted FAILUREMODE_RELOCALISE) = FAILUREMODE_RELOCALISE
   \<and> hasMoreImages (scripted FAILUREMODE_RELOCALISE) (world (scripted_mid 80 interrupted_frames))
   \<and> reloc (fst (run_body (scripted FAILUREMODE_RELOCALISE) (scripted_mid 80 interrupted_frames)))
       = Some \<lparr>considerKeyframe = False, keyframeID = - 1, nearestNeighbour = 2\<rparr>
   \<and> trackerResult_raw (fst (run_body (scripted FAILUREMODE_RELOCALISE)
         (scripted_mid 80 interrupted_frames))) = TRACKING_FAILED
   \<and> m_keyframeDelay (snd (run (scripted FAILUREMODE_RELOCALISE)
         (scripted_mid 80 interrupted_frames))) = 10
   \<and> reloc (session_frames (scripted FAILUREMODE_RELOCALISE) (replicate 12 Run)
         (snd (run (scripted FAILUREMODE_RELOCALISE) (scripted_mid 80 interrupted_frames))) ! 11)
       = Some \<lparr>considerKeyframe = True, keyframeID = 3, nearestNeighbour = 2\<rparr>
   \<and> 10 \<le> length (filter (\<lambda>f. trackerResult_raw f = TRACKING_GOOD)
         (take 11 (session_frames (scripted FAILUREMODE_RELOCALISE) (replicate 12 Run)
           (snd (run (scripted FAILUREMODE_RELOCALISE) (scripted_mid 80 interrupted_frames))))))"
proof -
  have h1: "behaviourOnFailure (scripted FAILUREMODE_RELOCALISE) = FAILUREMODE_RELOCALISE"
    by code_simp
  have h2: "hasMoreImages (scripted FAILUREMODE_RELOCALISE)
      (world (scripted_mid 80 interrupted_frames))"
    by code_simp
  have h3: "reloc (fst (run_body (scripted FAILUREMODE_RELOCALISE)
        (scripted_mid 80 interrupted_frames)))
       = Some \<lparr>considerKeyframe = False, keyframeID = - 1, nearestNeighbour = 2\<rparr>"
    by code_simp
  have h4: "trackerResult_raw (fst (run_body (scripted FAILUREMODE_RELOCALISE)
         (scripted_mid 80 interrupted_frames))) = TRACKING_FAILED"
    by code_simp
  have h5: "keyframeID \<lparr>considerKeyframe = False, keyframeID = - 1, nearestNeighbour = 2\<rparr> < 0"
    by simp
  have h6: "nearestNeighbour \<lparr>considerKeyframe = False, keyframeID = - 1, nearestNeighbour = 2\<rparr>
      \<noteq> - 1"
    by simp
  have e1: "11 < length (session_frames (scripted FAILUREMODE_RELOCALISE) (replicate 12 Run)
         (snd (run (scripted FAILUREMODE_RELOCALISE) (scripted_mid 80 interrupted_frames))))"
    by code_simp
  have e2: "reloc (session_frames (scripted FAILUREMODE_RELOCALISE) (replicate 12 Run)
         (snd (run (scripted FAILUREMODE_RELOCALISE) (scripted_mid 80 interrupted_frames))) ! 11)
       = Some \<lparr>considerKeyframe = True, keyframeID = 3, nearestNeighbour = 2\<rparr>"
    by code_simp
  have e3: "considerKeyframe \<lparr>considerKeyframe = True, keyframeID = 3, nearestNeighbour = 2\<rparr>"
    by simp
  note t = C4_keyframe_delay_amended [OF h1 h2 h3 h4 h5 h6]
  have "10 \<le> length (filter (\<lambda>f. trackerResult_raw f = TRACKING_GOOD)
         (take 11 (session_frames (scripted FAILUREMODE_RELOCALISE) (replicate 12 Run)
           (snd (run (scripted FAILUREMODE_RELOCALISE) (scripted_mid 80 interrupted_frames))))))"
    using t e1 e2 e3 by blast
  then show ?thesis using h1 h2 h3 h4 e2 t by blast
qed

subsection \<open>The fusion flag after the sub-engine has run out\<close>

text \<open>
  Claim C5, as stated: once \<^verbatim>\<open>run\<close> has found the current sub-engine out of images, the
  fusion flag stays false in all later calls of \<^verbatim>\<open>run\<close>, whatever calls of
  \<^verbatim>\<open>set_fusion_enabled\<close> follow. This fails: \<^verbatim>\<open>set_fusion_enabled\<close> assigns the flag
  unconditionally. In the session below the first call of \<^verbatim>\<open>run\<close> finds the sub-engine
  exhausted and clears the flag; after \<^verbatim>\<open>set_fusion_enabled(true)\<close> the flag is true, and
  the second call of \<^verbatim>\<open>run\<close> fuses its frame (the counter goes from \<open>81\<close> to \<open>82\<close>) and
  returns with the flag true.
\<close>

theorem C5_fusion_disabled_counterexample:
  "\<not> currentSubengine_hasMoreImages (scripted FAILUREMODE_STOP_INTEGRATION)
       (world (session (scripted FAILUREMODE_STOP_INTEGRATION) [Run] (scripted_mid 80 two_subengines)))
   \<and> \<not> get_fusion_enabled
       (session (scripted FAILUREMODE_STOP_INTEGRATION) [Run] (scripted_mid 80 two_subengines))
   \<and> get_fusion_enabled
       (session (scripted FAILUREMODE_STOP_INTEGRATION) [Run, Set_fusion_enabled True]
         (scripted_mid 80 two_subengines))
   \<and> get_fusion_enabled
       (session (scripted FAILUREMODE_STOP_INTEGRATION) [Run, Set_fusion_enabled True, Run]
         (scripted_mid 80 two_subengines))
   \<and> m_fusedFramesCount
       (session (scripted FAILUREMODE_STOP_INTEGRATION) [Run, Set_fusion_enabled True, Run]
         (scripted_mid 80 two_subengines)) = 82"
  by code_simp

text \<open>
  Claim C5, amended. A call of \<^verbatim>\<open>run\<close> that finds the current sub-engine out of images
  returns with the fusion flag false; from a state in which the flag is false it stays false
  over every sequence of calls that contains no \<^verbatim>\<open>set_fusion_enabled(true)\<close>; and
  \<^verbatim>\<open>set_fusion_enabled\<close> sets the flag to its argument, also after the sub-engine has run
  out.
\<close>

theorem C5_fusion_disabled_amended:
  "(hasMoreImages c (world s) \<and> \<not> currentSubengine_hasMoreImages c (world (snd (run c s)))
      \<longrightarrow> \<not> get_fusion_enabled (snd (run c s)))
   \<and> (\<not> get_fusion_enabled s \<and> Set_fusion_enabled True \<notin> set rs
      \<longrightarrow> \<not> get_fusion_enabled (session c rs s))
   \<and> get_fusion_enabled (set_fusion_enabled b s) = b"
  using session_stays_disabled [of s rs c]
  by (auto simp add: get_fusion_enabled_def set_fusion_enabled_def run_processes run_body_fusionEnabled)

text \<open>
  An instance: the last image of a sub-engine is processed, and the flag is still false
  after the next call of \<^verbatim>\<open>run\<close>.
\<close>

theorem C5_fusion_disabled_amended_witness:
  "hasMoreImages (scripted FAILUREMODE_STOP_INTEGRATION) (world (scripted_mid 80 two_subengines))
   \<and> \<not> currentSubengine_hasMoreImages (scripted FAILUREMODE_STOP_INTEGRATION)
        (world (snd (run (scripted FAILUREMODE_STOP_INTEGRATION) (scripted_mid 80 two_subengines))))
   \<and> \<not> get_fusion_enabled
        (snd (run (scripted FAILUREMODE_STOP_INTEGRATION) (scripted_mid 80 two_subengines)))
   \<and> Set_fusion_enabled True \<notin> set [Run]
   \<and> \<not> get_fusion_enabled (session (scripted FAILUREMODE_STOP_INTEGRATION) [Run]
        (snd (run (scripted FAILUREMODE_STOP_INTEGRATION) (scripted_mid 80 two_subengines))))"
proof -
  have h1: "hasMoreImages (scripted FAILUREMODE_STOP_INTEGRATION)
      (world (scripted_mid 80 two_subengines))"
    by code_simp
  have h2: "\<not> currentSubengine_hasMoreImages (scripted FAILUREMODE_STOP_INTEGRATION)
        (world (snd (run (scripted FAILUREMODE_STOP_INTEGRATION) (scripted_mid 80 two_subengines))))"
    by code_simp
  have h3: "Set_fusion_enabled True \<notin> set [Run]"
    by simp
  have off: "\<not> get_fusion_enabled
        (snd (run (scripted FAILUREMODE_STOP_INTEGRATION) (scripted_mid 80 two_subengines)))"
    using h1 h2
      C5_fusion_disabled_amended [where c = "scripted FAILUREMODE_STOP_INTEGRATION"
        and s = "scripted_mid 80 two_subengines"]
    by blast
  have "\<not> get_fusion_enabled (session (scripted FAILUREMODE_STOP_INTEGRATION) [Run]
        (snd (run (scripted FAILUREMODE_STOP_INTEGRATION) (scripted_mid 80 two_subengines))))"
    using off h3
      C5_fusion_disabled_amended [where c = "scripted FAILUREMODE_STOP_INTEGRATION"
        and s = "snd (run (scripted FAILUREMODE_STOP_INTEGRATION) (scripted_mid 80 two_subengines))"
        and rs = "[Run]"]
    by blast
  then show ?thesis using h1 h2 h3 off by blast
qed

end
